theory Spec2Isabelle
  imports Complex_Main
begin

section \<open>Numbers and arrays\<close>

text \<open>
  Python floats are modelled as exact reals (so \<open>astype(np.float32)\<close> changes nothing) and a
  one-dimensional numpy array as a list. A draw of \<open>n\<close> random numbers is a function from
  the index to the value drawn, passed in as an argument.
\<close>

text \<open>\<open>np.round\<close> rounds a half to the even neighbour.\<close>

definition np_round :: "real \<Rightarrow> real" where
  "np_round x =
     (let f = \<lfloor>x\<rfloor>; d = x - of_int f
      in of_int (if d < 1 / 2 then f else if 1 / 2 < d then f + 1
                 else if even f then f else f + 1))"

definition clip :: "real \<Rightarrow> real" where
  "clip x = min (max x (- 1)) 1"

definition add_noise :: "(nat \<Rightarrow> real) \<Rightarrow> real list \<Rightarrow> real list" where
  "add_noise noise xs = map (\<lambda>i. xs ! i + noise i) [0..<length xs]"

text \<open>\<open>int(x)\<close> on a float truncates towards zero.\<close>

definition py_int :: "real \<Rightarrow> int" where
  "py_int x = (if 0 \<le> x then \<lfloor>x\<rfloor> else \<lceil>x\<rceil>)"

text \<open>
  \<open>np.convolve(a, v, mode='same')\<close>: the operands are swapped when \<open>v\<close> is the longer one,
  and the result is the centred part of the full convolution, as long as the longer
  operand. Callers pass non-empty operands.
\<close>

definition convolve_full :: "real list \<Rightarrow> real list \<Rightarrow> real list" where
  "convolve_full a v =
     map (\<lambda>k. \<Sum>i\<leftarrow>[0..<length a]. if i \<le> k \<and> k - i < length v then a ! i * v ! (k - i) else 0)
       [0..<length a + length v - 1]"

definition convolve_same :: "real list \<Rightarrow> real list \<Rightarrow> real list" where
  "convolve_same a v =
     (let a' = (if length v > length a then v else a);
          v' = (if length v > length a then a else v);
          n = length v'
      in take (length a') (drop (n - 1 - n div 2) (convolve_full a' v')))"

text \<open>
  The exceptions numpy raises in this code: \<open>IndexError\<close> for reading sample 0 of an empty
  array, \<open>ValueError\<close> for adding arrays of different shapes. Where a call raises, the
  caller ends with the same exception; \<open>and_then\<close> runs the rest of the caller on a
  returned value only.
\<close>

datatype dsp_error = ValueError | IndexError

definition and_then :: "dsp_error + 'a \<Rightarrow> ('a \<Rightarrow> dsp_error + 'b) \<Rightarrow> dsp_error + 'b" where
  "and_then r f = (case r of Inl e \<Rightarrow> Inl e | Inr x \<Rightarrow> f x)"

section \<open>Diphone sequencer (diphone\_synthesizer.py)\<close>

text \<open>
  Phoneme symbols and pause markers are Python strings; a diphone unit is the string
  \<open>start-end\<close>. \<open>s.startswith(p)\<close> compares the first \<open>len(p)\<close> characters.
\<close>

definition startswith :: "string \<Rightarrow> string \<Rightarrow> bool" where
  "startswith s p = (take (length p) s = p)"

definition is_pause :: "string \<Rightarrow> bool" where
  "is_pause s = startswith s ''<PAUSE''"

text \<open>The body of the loop over \<open>range(len(phonemes) - 1)\<close>: one unit per adjacent pair.\<close>

definition pair_unit :: "string \<Rightarrow> string \<Rightarrow> string" where
  "pair_unit current_phoneme next_phoneme =
     (if is_pause current_phoneme \<or> is_pause next_phoneme then current_phoneme
      else current_phoneme @ ''-'' @ next_phoneme)"

definition leading_silence :: "string list \<Rightarrow> string list" where
  "leading_silence phonemes =
     (if phonemes \<noteq> [] \<and> \<not> is_pause (hd phonemes) then [''SIL-'' @ hd phonemes] else [])"

definition adjacent_units :: "string list \<Rightarrow> string list" where
  "adjacent_units phonemes =
     map (\<lambda>i. pair_unit (phonemes ! i) (phonemes ! (i + 1))) [0..<length phonemes - 1]"

definition trailing_silence :: "string list \<Rightarrow> string list" where
  "trailing_silence phonemes =
     (if phonemes \<noteq> [] \<and> \<not> is_pause (last phonemes) then [last phonemes @ ''-SIL''] else [])"

definition phonemes_to_diphones :: "string list \<Rightarrow> string list" where
  "phonemes_to_diphones phonemes =
     leading_silence phonemes @ adjacent_units phonemes @ trailing_silence phonemes"

subsection \<open>Durations\<close>

text \<open>
  Samples, durations and frequencies are Python floats; they are modelled as exact reals.
  The dictionary of \<open>_load_phoneme_durations\<close> is an association list read with
  \<open>map_of\<close>.
\<close>

definition phoneme_durations :: "(string \<times> real) list" where
  "phoneme_durations =
    [(''AA'', 0.12), (''AE'', 0.10), (''AH'', 0.08), (''AO'', 0.12), (''AW'', 0.14), (''AY'', 0.14),
     (''EH'', 0.10), (''ER'', 0.12), (''EY'', 0.14), (''IH'', 0.08), (''IY'', 0.12), (''OW'', 0.14),
     (''OY'', 0.14), (''UH'', 0.08), (''UW'', 0.12),
     (''B'', 0.06), (''CH'', 0.08), (''D'', 0.04), (''DH'', 0.06), (''F'', 0.08), (''G'', 0.06),
     (''HH'', 0.06), (''JH'', 0.08), (''K'', 0.06), (''L'', 0.06), (''M'', 0.06), (''N'', 0.06),
     (''NG'', 0.08), (''P'', 0.06), (''R'', 0.06), (''S'', 0.08), (''SH'', 0.08), (''T'', 0.04),
     (''TH'', 0.08), (''V'', 0.06), (''W'', 0.06), (''Y'', 0.06), (''Z'', 0.06), (''ZH'', 0.08),
     (''SIL'', 0.02)]"

definition base_duration :: real where
  "base_duration = 0.08"

definition get_diphone_duration :: "string \<Rightarrow> string \<Rightarrow> real" where
  "get_diphone_duration start_phoneme end_phoneme =
     (if start_phoneme = ''SIL'' \<or> end_phoneme = ''SIL'' then base_duration * 0.5
      else (case map_of phoneme_durations start_phoneme of
              Some duration \<Rightarrow> duration
            | None \<Rightarrow> base_duration))"

text \<open>\<open>sub in s\<close> for Python strings: \<open>sub\<close> occurs as a contiguous block of \<open>s\<close>.\<close>

fun str_contains :: "string \<Rightarrow> string \<Rightarrow> bool" where
  "str_contains [] sub = (sub = [])"
| "str_contains (c # cs) sub = (startswith (c # cs) sub \<or> str_contains cs sub)"

definition get_pause_duration :: "string \<Rightarrow> real" where
  "get_pause_duration pause_marker =
     (if str_contains pause_marker ''LONG'' then 0.5
      else if str_contains pause_marker ''MEDIUM'' then 0.3
      else if str_contains pause_marker ''SHORT'' then 0.2
      else 0.3)"

subsection \<open>Phoneme inventory\<close>

record formants =
  F1 :: real
  F2 :: real
  F3 :: real
  A1 :: real
  A2 :: real
  A3 :: real

definition formant_frequencies :: "(string \<times> formants) list" where
  "formant_frequencies =
    [(''AA'', \<lparr>F1 = 730, F2 = 1090, F3 = 2440, A1 = 1.0, A2 = 0.6, A3 = 0.3\<rparr>),
     (''AE'', \<lparr>F1 = 660, F2 = 1720, F3 = 2410, A1 = 1.0, A2 = 0.8, A3 = 0.3\<rparr>),
     (''AH'', \<lparr>F1 = 520, F2 = 1190, F3 = 2390, A1 = 1.0, A2 = 0.5, A3 = 0.2\<rparr>),
     (''AO'', \<lparr>F1 = 570, F2 = 840, F3 = 2410, A1 = 1.0, A2 = 0.4, A3 = 0.2\<rparr>),
     (''EH'', \<lparr>F1 = 530, F2 = 1840, F3 = 2480, A1 = 1.0, A2 = 0.7, A3 = 0.3\<rparr>),
     (''ER'', \<lparr>F1 = 490, F2 = 1350, F3 = 1690, A1 = 1.0, A2 = 0.6, A3 = 0.4\<rparr>),
     (''IH'', \<lparr>F1 = 390, F2 = 1990, F3 = 2550, A1 = 1.0, A2 = 0.8, A3 = 0.3\<rparr>),
     (''IY'', \<lparr>F1 = 270, F2 = 2290, F3 = 3010, A1 = 1.0, A2 = 0.9, A3 = 0.4\<rparr>),
     (''OW'', \<lparr>F1 = 570, F2 = 840, F3 = 2410, A1 = 1.0, A2 = 0.4, A3 = 0.2\<rparr>),
     (''UH'', \<lparr>F1 = 440, F2 = 1020, F3 = 2240, A1 = 1.0, A2 = 0.4, A3 = 0.2\<rparr>),
     (''UW'', \<lparr>F1 = 300, F2 = 870, F3 = 2240, A1 = 1.0, A2 = 0.3, A3 = 0.2\<rparr>),
     (''AY'', \<lparr>F1 = 660, F2 = 1720, F3 = 2410, A1 = 1.0, A2 = 0.8, A3 = 0.3\<rparr>),
     (''AW'', \<lparr>F1 = 730, F2 = 1090, F3 = 2440, A1 = 1.0, A2 = 0.6, A3 = 0.3\<rparr>),
     (''EY'', \<lparr>F1 = 530, F2 = 1840, F3 = 2480, A1 = 1.0, A2 = 0.7, A3 = 0.3\<rparr>),
     (''OY'', \<lparr>F1 = 570, F2 = 840, F3 = 2410, A1 = 1.0, A2 = 0.4, A3 = 0.2\<rparr>),
     (''B'', \<lparr>F1 = 200, F2 = 1000, F3 = 2500, A1 = 0.3, A2 = 0.2, A3 = 0.1\<rparr>),
     (''D'', \<lparr>F1 = 200, F2 = 1700, F3 = 2600, A1 = 0.3, A2 = 0.2, A3 = 0.1\<rparr>),
     (''G'', \<lparr>F1 = 200, F2 = 1400, F3 = 2200, A1 = 0.3, A2 = 0.2, A3 = 0.1\<rparr>),
     (''P'', \<lparr>F1 = 200, F2 = 1000, F3 = 2500, A1 = 0.1, A2 = 0.1, A3 = 0.05\<rparr>),
     (''T'', \<lparr>F1 = 200, F2 = 1700, F3 = 2600, A1 = 0.1, A2 = 0.1, A3 = 0.05\<rparr>),
     (''K'', \<lparr>F1 = 200, F2 = 1400, F3 = 2200, A1 = 0.1, A2 = 0.1, A3 = 0.05\<rparr>),
     (''M'', \<lparr>F1 = 250, F2 = 1000, F3 = 2200, A1 = 0.8, A2 = 0.3, A3 = 0.2\<rparr>),
     (''N'', \<lparr>F1 = 250, F2 = 1700, F3 = 2600, A1 = 0.8, A2 = 0.3, A3 = 0.2\<rparr>),
     (''NG'', \<lparr>F1 = 250, F2 = 1400, F3 = 2200, A1 = 0.8, A2 = 0.3, A3 = 0.2\<rparr>),
     (''L'', \<lparr>F1 = 400, F2 = 1200, F3 = 2600, A1 = 0.9, A2 = 0.5, A3 = 0.3\<rparr>),
     (''R'', \<lparr>F1 = 300, F2 = 1300, F3 = 1600, A1 = 0.9, A2 = 0.5, A3 = 0.4\<rparr>),
     (''W'', \<lparr>F1 = 300, F2 = 870, F3 = 2240, A1 = 0.8, A2 = 0.3, A3 = 0.2\<rparr>),
     (''Y'', \<lparr>F1 = 270, F2 = 2290, F3 = 3010, A1 = 0.8, A2 = 0.7, A3 = 0.3\<rparr>),
     (''F'', \<lparr>F1 = 200, F2 = 1000, F3 = 4000, A1 = 0.2, A2 = 0.3, A3 = 0.8\<rparr>),
     (''V'', \<lparr>F1 = 200, F2 = 1000, F3 = 4000, A1 = 0.4, A2 = 0.4, A3 = 0.6\<rparr>),
     (''TH'', \<lparr>F1 = 200, F2 = 1400, F3 = 4500, A1 = 0.2, A2 = 0.3, A3 = 0.8\<rparr>),
     (''DH'', \<lparr>F1 = 200, F2 = 1400, F3 = 4500, A1 = 0.4, A2 = 0.4, A3 = 0.6\<rparr>),
     (''S'', \<lparr>F1 = 200, F2 = 2000, F3 = 6000, A1 = 0.1, A2 = 0.5, A3 = 1.0\<rparr>),
     (''Z'', \<lparr>F1 = 200, F2 = 2000, F3 = 6000, A1 = 0.3, A2 = 0.6, A3 = 0.8\<rparr>),
     (''SH'', \<lparr>F1 = 200, F2 = 1200, F3 = 4000, A1 = 0.1, A2 = 0.3, A3 = 0.9\<rparr>),
     (''ZH'', \<lparr>F1 = 200, F2 = 1200, F3 = 4000, A1 = 0.3, A2 = 0.4, A3 = 0.7\<rparr>),
     (''CH'', \<lparr>F1 = 200, F2 = 1200, F3 = 4000, A1 = 0.1, A2 = 0.3, A3 = 0.8\<rparr>),
     (''JH'', \<lparr>F1 = 200, F2 = 1200, F3 = 4000, A1 = 0.3, A2 = 0.4, A3 = 0.6\<rparr>),
     (''HH'', \<lparr>F1 = 300, F2 = 1500, F3 = 3000, A1 = 0.3, A2 = 0.2, A3 = 0.1\<rparr>),
     (''SIL'', \<lparr>F1 = 0, F2 = 0, F3 = 0, A1 = 0.0, A2 = 0.0, A3 = 0.0\<rparr>)]"

definition get_default_formants :: formants where
  "get_default_formants = \<lparr>F1 = 500, F2 = 1500, F3 = 2500, A1 = 0.5, A2 = 0.3, A3 = 0.1\<rparr>"

definition get_formants :: "string \<Rightarrow> formants" where
  "get_formants phoneme =
     (case map_of formant_frequencies phoneme of
        Some f \<Rightarrow> f
      | None \<Rightarrow> get_default_formants)"

definition voiced_phonemes :: "string list" where
  "voiced_phonemes =
     [''AA'', ''AE'', ''AH'', ''AO'', ''AW'', ''AY'', ''EH'', ''ER'', ''EY'', ''IH'', ''IY'',
      ''OW'', ''OY'', ''UH'', ''UW'', ''B'', ''D'', ''G'', ''V'', ''DH'', ''Z'', ''ZH'', ''JH'',
      ''M'', ''N'', ''NG'', ''L'', ''R'', ''W'', ''Y'']"

definition is_voiced_phoneme :: "string \<Rightarrow> bool" where
  "is_voiced_phoneme phoneme = (phoneme \<in> set voiced_phonemes)"

definition fundamental_frequency :: real where
  "fundamental_frequency = 120.0"

definition formant_bandwidth :: real where
  "formant_bandwidth = 100.0"

subsection \<open>Formant synthesis of one diphone\<close>

text \<open>
  \<open>np.linspace(start, stop, num)\<close> with the end point, and \<open>endpoint=False\<close> without it.
\<close>

definition linspace :: "real \<Rightarrow> real \<Rightarrow> nat \<Rightarrow> real list" where
  "linspace start stop num =
     (if num = 1 then [start]
      else map (\<lambda>i. start + real i * ((stop - start) / real (num - 1))) [0..<num])"

definition linspace_open :: "real \<Rightarrow> real \<Rightarrow> nat \<Rightarrow> real list" where
  "linspace_open start stop num =
     map (\<lambda>i. start + real i * ((stop - start) / real num)) [0..<num]"

definition vmul :: "real list \<Rightarrow> real list \<Rightarrow> real list" where
  "vmul xs ys = map (\<lambda>(x, y). x * y) (zip xs ys)"

fun cumsum_from :: "real \<Rightarrow> real list \<Rightarrow> real list" where
  "cumsum_from acc [] = []"
| "cumsum_from acc (x # xs) = (acc + x) # cumsum_from (acc + x) xs"

definition generate_pulse_train :: "nat \<Rightarrow> real list \<Rightarrow> real list \<Rightarrow> real list \<Rightarrow> real list" where
  "generate_pulse_train sample_rate t f0 voicing =
     (let dt = (if length t > 1 then t ! 1 - t ! 0 else 1.0 / real sample_rate);
          phase = (if t = [] then []
                   else 0 # map (\<lambda>s. s * 2 * pi)
                              (cumsum_from 0 (map (\<lambda>f. f * dt) (butlast f0))));
          sawtooth = map (\<lambda>ph. 2 * (ph / (2 * pi) - of_int \<lfloor>ph / (2 * pi) + 0.5\<rfloor>)) phase
      in vmul sawtooth voicing)"

text \<open>The loop \<open>output[i] = alpha * output[i-1] + alpha * (audio[i] - audio[i-1])\<close>.\<close>

fun highpass_loop :: "real \<Rightarrow> real \<Rightarrow> real \<Rightarrow> real list \<Rightarrow> real list" where
  "highpass_loop alpha prev_out prev_in [] = []"
| "highpass_loop alpha prev_out prev_in (x # xs) =
     (let y = alpha * prev_out + alpha * (x - prev_in) in y # highpass_loop alpha y x xs)"

definition apply_highpass_filter :: "nat \<Rightarrow> real list \<Rightarrow> real \<Rightarrow> real list" where
  "apply_highpass_filter sample_rate signal cutoff_freq =
     (if length signal \<le> 1 then signal
      else let omega = 2 * pi * cutoff_freq / real sample_rate;
               alpha = exp (- omega)
           in hd signal # highpass_loop alpha (hd signal) (hd signal) (tl signal))"

definition apply_burst_shaping :: "real list \<Rightarrow> real list" where
  "apply_burst_shaping noise =
     (let decay_samples = min (length noise div 4) 100;
          ones = replicate (length noise) 1;
          envelope = (if decay_samples > 0
                      then map (\<lambda>x. exp (- x)) (linspace 0 3 decay_samples) @ drop decay_samples ones
                      else ones)
      in vmul noise envelope)"

definition generate_noise ::
  "nat \<Rightarrow> (nat \<Rightarrow> real) \<Rightarrow> real list \<Rightarrow> string \<Rightarrow> string \<Rightarrow> real list" where
  "generate_noise sample_rate normal_draw t start_phoneme end_phoneme =
     (let noise = map normal_draw [0..<length t]
      in if list_ex (\<lambda>p. p \<in> set [''S'', ''SH'', ''F'', ''TH'']) [start_phoneme, end_phoneme]
         then apply_highpass_filter sample_rate noise 2000
         else if list_ex (\<lambda>p. p \<in> set [''P'', ''T'', ''K'']) [start_phoneme, end_phoneme]
         then apply_burst_shaping noise
         else noise)"

text \<open>
  The resonator. \<open>output\<close> starts as zeros and the loop stores one sample per index; where
  the frequency is not positive nothing is stored.
\<close>

definition formant_filter_step ::
  "nat \<Rightarrow> real \<Rightarrow> real list \<Rightarrow> real list \<Rightarrow> real list \<Rightarrow> real list \<Rightarrow> nat \<Rightarrow> real list" where
  "formant_filter_step sample_rate bandwidth source formant_freq amplitude output i =
     (let freq = formant_freq ! i;
          amp = amplitude ! i
      in if freq > 0
         then let omega = 2 * pi * freq / real sample_rate;
                  r = 1 - (bandwidth / real sample_rate)
              in if i \<ge> 2
                 then output[i := amp * source ! i + 2 * r * cos omega * output ! (i - 1)
                                   - r * r * output ! (i - 2)]
                 else output[i := amp * source ! i]
         else output)"

definition apply_formant_filter ::
  "nat \<Rightarrow> real list \<Rightarrow> real list \<Rightarrow> real list \<Rightarrow> real \<Rightarrow> real list" where
  "apply_formant_filter sample_rate source formant_freq amplitude bandwidth =
     (if length source = 0 then source
      else foldl (formant_filter_step sample_rate bandwidth source formant_freq amplitude)
             (replicate (length source) 0) [0..<length source])"

text \<open>The output array after the first \<open>k\<close> iterations of the loop.\<close>

definition filter_prefix ::
  "nat \<Rightarrow> real \<Rightarrow> real list \<Rightarrow> real list \<Rightarrow> real list \<Rightarrow> nat \<Rightarrow> real list" where
  "filter_prefix sr bw x f a k =
     foldl (formant_filter_step sr bw x f a) (replicate (length x) 0) [0..<k]"

definition generate_amplitude_envelope :: "nat \<Rightarrow> real list" where
  "generate_amplitude_envelope num_samples =
     (let envelope = replicate num_samples 1
      in if num_samples \<le> 1 then envelope
         else let attack_samples = min (num_samples div 8) 50;
                  decay_samples = min (num_samples div 8) 50;
                  envelope1 = (if attack_samples > 0
                               then linspace 0 1 attack_samples @ drop attack_samples envelope
                               else envelope);
                  envelope2 = (if decay_samples > 0
                               then take (num_samples - decay_samples) envelope1
                                    @ linspace 1 0 decay_samples
                               else envelope1)
              in envelope2)"

definition max_abs :: "real list \<Rightarrow> real" where
  "max_abs xs = Max (set (map abs xs))"

definition formant_synthesis ::
  "nat \<Rightarrow> (nat \<Rightarrow> real) \<Rightarrow> real list \<Rightarrow> formants \<Rightarrow> formants \<Rightarrow> string \<Rightarrow> string \<Rightarrow> real list" where
  "formant_synthesis sample_rate normal_draw t start_formants end_formants start_phoneme end_phoneme =
     (if length t = 0 then []
      else let n = length t;
               is_voiced_start = is_voiced_phoneme start_phoneme;
               is_voiced_end = is_voiced_phoneme end_phoneme;
               voicing = linspace (if is_voiced_start then 1 else 0)
                           (if is_voiced_end then 1 else 0) n;
               f0_start = (if is_voiced_start then fundamental_frequency else 0);
               f0_end = (if is_voiced_end then fundamental_frequency else 0);
               f0 = linspace f0_start f0_end n;
               f1 = linspace (F1 start_formants) (F1 end_formants) n;
               f2 = linspace (F2 start_formants) (F2 end_formants) n;
               f3 = linspace (F3 start_formants) (F3 end_formants) n;
               a1 = linspace (A1 start_formants) (A1 end_formants) n;
               a2 = linspace (A2 start_formants) (A2 end_formants) n;
               a3 = linspace (A3 start_formants) (A3 end_formants) n;
               source = (if list_ex (\<lambda>v. v > 0) voicing
                         then generate_pulse_train sample_rate t f0 voicing
                         else generate_noise sample_rate normal_draw t start_phoneme end_phoneme);
               formant1 = apply_formant_filter sample_rate source f1 a1 formant_bandwidth;
               formant2 = apply_formant_filter sample_rate source f2 a2 formant_bandwidth;
               formant3 = apply_formant_filter sample_rate source f3 a3 formant_bandwidth;
               audio = map (\<lambda>i. 0.5 * formant1 ! i + 0.3 * formant2 ! i + 0.2 * formant3 ! i)
                         [0..<n];
               envelope = generate_amplitude_envelope n;
               audio1 = vmul audio envelope
           in if max_abs audio1 > 0 then map (\<lambda>x. x / max_abs audio1 * 0.8) audio1
              else audio1)"

text \<open>\<open>diphone.split('-', 1)\<close>: the parts before and after the first dash.\<close>

definition diphone_start :: "string \<Rightarrow> string" where
  "diphone_start diphone =
     (if CHR ''-'' \<in> set diphone then takeWhile (\<lambda>c. c \<noteq> CHR ''-'') diphone else diphone)"

definition diphone_end :: "string \<Rightarrow> string" where
  "diphone_end diphone =
     (if CHR ''-'' \<in> set diphone then tl (dropWhile (\<lambda>c. c \<noteq> CHR ''-'') diphone) else diphone)"

definition synthesize_diphone :: "nat \<Rightarrow> (nat \<Rightarrow> real) \<Rightarrow> string \<Rightarrow> real list" where
  "synthesize_diphone sample_rate normal_draw diphone =
     (let start_phoneme = diphone_start diphone;
          end_phoneme = diphone_end diphone;
          start_formants = get_formants start_phoneme;
          end_formants = get_formants end_phoneme;
          duration = get_diphone_duration start_phoneme end_phoneme;
          num_samples = py_int (duration * real sample_rate)
      in if num_samples \<le> 0 then []
         else let t = linspace_open 0 duration (nat num_samples)
              in formant_synthesis sample_rate normal_draw t start_formants end_formants
                   start_phoneme end_phoneme)"

subsection \<open>The utterance\<close>

text \<open>
  The post-processing of the concatenated segments: a moving average over three samples,
  then amplitudes rounded to multiples of 1/128.
\<close>

definition apply_vintage_processing :: "real list \<Rightarrow> real list" where
  "apply_vintage_processing audio =
     (if length audio = 0 then audio
      else let audio1 = (if length audio > 1
                         then let kernel_size = 3;
                                  kernel = replicate kernel_size (1 / real kernel_size)
                              in convolve_same audio kernel
                         else audio);
               quantization_levels = 256
           in map (\<lambda>x. np_round (x * quantization_levels / 2) * 2 / quantization_levels) audio1)"

text \<open>
  One segment per unit; unit number \<open>k\<close> takes its random numbers, if it needs any, from
  \<open>normal_draws k\<close>.
\<close>

definition synthesize_unit :: "nat \<Rightarrow> (nat \<Rightarrow> real) \<Rightarrow> string \<Rightarrow> real list" where
  "synthesize_unit sample_rate normal_draw diphone =
     (if is_pause diphone
      then let pause_duration = get_pause_duration diphone
           in replicate (nat (py_int (pause_duration * real sample_rate))) 0
      else synthesize_diphone sample_rate normal_draw diphone)"

definition synthesize :: "nat \<Rightarrow> (nat \<Rightarrow> nat \<Rightarrow> real) \<Rightarrow> string list \<Rightarrow> real list" where
  "synthesize sample_rate normal_draws phonemes =
     (if phonemes = [] then []
      else let diphones = phonemes_to_diphones phonemes;
               audio_segments = map (\<lambda>k. synthesize_unit sample_rate (normal_draws k) (diphones ! k))
                                  [0..<length diphones];
               audio = concat audio_segments
           in apply_vintage_processing audio)"

text \<open>
  The number of samples the segment of one unit is created with:
  \<open>int(pause_duration * sample_rate)\<close> zeros for a pause marker and
  \<open>num_samples = int(duration * sample_rate)\<close> for a diphone.
\<close>

definition unit_samples :: "nat \<Rightarrow> string \<Rightarrow> nat" where
  "unit_samples sr u =
     (if is_pause u then nat (py_int (get_pause_duration u * real sr))
      else nat (py_int (get_diphone_duration (diphone_start u) (diphone_end u) * real sr)))"

section \<open>Baseline vintage chain (vintage\_dsp.py)\<close>

text \<open>
  The sample rate is a positive integer (the configuration admits 8000 to 48000) and the
  bit depth is 8, 12 or 16 (\<open>set_bit_depth\<close> raises on anything else). The uniform noise of
  the bit crusher is the draw \<open>quantization_noise\<close>.
\<close>

definition simulate_analog_frontend :: "real list \<Rightarrow> real list" where
  "simulate_analog_frontend audio =
     (let audio1 = map (\<lambda>x. x + 0.002 * sgn x * x\<^sup>2) audio;
          dc_offset = 0.001
      in map (\<lambda>x. x + dc_offset) audio1)"

text \<open>The loop \<open>filtered[i] = alpha * filtered[i-1] + (1 - alpha) * audio[i]\<close>.\<close>

fun lowpass_loop :: "real \<Rightarrow> real \<Rightarrow> real list \<Rightarrow> real list" where
  "lowpass_loop alpha prev [] = []"
| "lowpass_loop alpha prev (x # xs) =
     (let y = alpha * prev + (1 - alpha) * x in y # lowpass_loop alpha y xs)"

text \<open>
  One pole over the buffer \<open>x # xs\<close>, which has a first sample:
  \<open>y[0] = x[0] * (1 - alpha)\<close>, then the loop.
\<close>

definition one_pole :: "real \<Rightarrow> real \<Rightarrow> real list \<Rightarrow> real list" where
  "one_pole alpha x xs = (let y0 = x * (1 - alpha) in y0 # lowpass_loop alpha y0 xs)"

definition apply_vintage_antialiasing :: "nat \<Rightarrow> real list \<Rightarrow> real list" where
  "apply_vintage_antialiasing sample_rate audio =
     (let cutoff_freq = 10000;
          omega = 2 * pi * cutoff_freq / real sample_rate;
          alpha = exp (- omega)
      in if length audio \<le> 1 then audio else one_pole alpha (hd audio) (tl audio))"

definition max_level_of :: "nat \<Rightarrow> real" where
  "max_level_of bits = 2 ^ (bits - 1) - 1"

definition quantize :: "real \<Rightarrow> real \<Rightarrow> real" where
  "quantize max_level x = np_round (x * max_level) / max_level"

definition apply_bit_crushing :: "nat \<Rightarrow> (nat \<Rightarrow> real) \<Rightarrow> real list \<Rightarrow> real list" where
  "apply_bit_crushing bit_depth quantization_noise audio =
     (if bit_depth \<ge> 16 then audio
      else let max_level = max_level_of bit_depth;
               quantized = map (quantize max_level) audio;
               quantized = add_noise quantization_noise quantized
           in map clip quantized)"

definition apply_sample_rate_artifacts :: "nat \<Rightarrow> real list \<Rightarrow> real list" where
  "apply_sample_rate_artifacts sample_rate audio =
     (if length audio > 1
      then let alias_freq = real sample_rate * 0.7
           in map (\<lambda>i. audio ! i +
                    0.001 * sin (2 * pi * alias_freq * (real i / real sample_rate)))
                [0..<length audio]
      else audio)"

text \<open>
  The two passes of \<open>_apply_vintage_lowpass\<close> over the buffer \<open>x # xs\<close>: the first stage
  \<open>y1\<close>, then the second stage over \<open>y1\<close>.
\<close>

definition lowpass_two_stages :: "real \<Rightarrow> real \<Rightarrow> real list \<Rightarrow> real list" where
  "lowpass_two_stages alpha x xs =
     (let y1 = one_pole alpha x xs;
          y2 = one_pole alpha (hd y1) (tl y1)
      in y2)"

definition vintage_lowpass_on :: "nat \<Rightarrow> real \<Rightarrow> real list \<Rightarrow> real \<Rightarrow> real list" where
  "vintage_lowpass_on sample_rate x xs cutoff_freq =
     (let omega = 2 * pi * cutoff_freq / real sample_rate;
          alpha = exp (- omega)
      in lowpass_two_stages alpha x xs)"

text \<open>
  \<open>_apply_vintage_lowpass\<close> has no length guard: on an empty buffer the assignment
  \<open>y1[0] = audio[0] * (1 - alpha)\<close> raises \<open>IndexError\<close>.
\<close>

definition apply_vintage_lowpass :: "nat \<Rightarrow> real list \<Rightarrow> real \<Rightarrow> dsp_error + real list" where
  "apply_vintage_lowpass sample_rate audio cutoff_freq =
     (case audio of
        [] \<Rightarrow> Inl IndexError
      | x # xs \<Rightarrow> Inr (vintage_lowpass_on sample_rate x xs cutoff_freq))"

definition apply_vintage_highpass :: "nat \<Rightarrow> real list \<Rightarrow> real \<Rightarrow> real list" where
  "apply_vintage_highpass sample_rate audio cutoff_freq =
     (let omega = 2 * pi * cutoff_freq / real sample_rate;
          alpha = exp (- omega)
      in if length audio \<le> 1 then audio
         else hd audio # highpass_loop alpha (hd audio) (hd audio) (tl audio))"

text \<open>
  The loop of the peaking filter:
  \<open>resonance = a * cos(omega_c) * output[i-1] - a * a * output[i-2]\<close>,
  \<open>output[i] = audio[i] + b * resonance\<close>.
\<close>

fun emphasis_loop :: "real \<Rightarrow> real \<Rightarrow> real \<Rightarrow> real \<Rightarrow> real \<Rightarrow> real list \<Rightarrow> real list" where
  "emphasis_loop a b omega_c out1 out2 [] = []"
| "emphasis_loop a b omega_c out1 out2 (x # xs) =
     (let resonance = a * cos omega_c * out1 - a * a * out2;
          y = x + b * resonance
      in y # emphasis_loop a b omega_c y out1 xs)"

definition apply_speech_emphasis :: "nat \<Rightarrow> real list \<Rightarrow> real list" where
  "apply_speech_emphasis sample_rate audio =
     (let center_freq = 3000;
          gain = 1.2;
          omega_c = 2 * pi * center_freq / real sample_rate
      in if length audio \<le> 2 then map (\<lambda>x. x * gain) audio
         else let a = 0.9; b = gain - 1.0
              in audio ! 0 # audio ! 1 #
                 emphasis_loop a b omega_c (audio ! 1) (audio ! 0) (drop 2 audio))"

text \<open>
  The shaping calls the low-pass on a buffer of two samples or more, where it returns
  \<open>vintage_lowpass_on\<close> of the first sample and the rest.
\<close>

definition apply_frequency_response_shaping :: "nat \<Rightarrow> real list \<Rightarrow> real list" where
  "apply_frequency_response_shaping sample_rate audio =
     (if length audio \<le> 1 then audio
      else let audio1 = vintage_lowpass_on sample_rate (hd audio) (tl audio) 8000;
               audio2 = apply_vintage_highpass sample_rate audio1 200
           in apply_speech_emphasis sample_rate audio2)"

text \<open>The envelope follower: attack when the level rises above the smoothed one, else release.\<close>

fun envelope_loop :: "real \<Rightarrow> real \<Rightarrow> real \<Rightarrow> real list \<Rightarrow> real list" where
  "envelope_loop attack_coef release_coef prev [] = []"
| "envelope_loop attack_coef release_coef prev (e # es) =
     (let s = (if e > prev then attack_coef * e + (1 - attack_coef) * prev
               else release_coef * e + (1 - release_coef) * prev)
      in s # envelope_loop attack_coef release_coef s es)"

definition smooth_envelope :: "real \<Rightarrow> real \<Rightarrow> real list \<Rightarrow> real list" where
  "smooth_envelope attack_coef release_coef envelope =
     (case envelope of [] \<Rightarrow> []
      | e # es \<Rightarrow> e # envelope_loop attack_coef release_coef e es)"

definition gain_reduction :: "real \<Rightarrow> real \<Rightarrow> real \<Rightarrow> real" where
  "gain_reduction threshold ratio s =
     (if s > threshold then threshold / s * (1.0 + (s - threshold) / ratio) else 1)"

definition compress :: "real \<Rightarrow> real \<Rightarrow> real \<Rightarrow> real \<Rightarrow> real list \<Rightarrow> real list" where
  "compress threshold ratio attack_coef release_coef audio =
     (let envelope = map abs audio;
          smooth = smooth_envelope attack_coef release_coef envelope
      in map (\<lambda>(x, s). x * gain_reduction threshold ratio s) (zip audio smooth))"

definition apply_vintage_compression :: "real list \<Rightarrow> real list" where
  "apply_vintage_compression audio =
     (if length audio = 0 then audio else compress 0.8 4.0 0.1 0.001 audio)"

definition apply_output_stage_processing :: "nat \<Rightarrow> real list \<Rightarrow> real list" where
  "apply_output_stage_processing sample_rate audio =
     (let audio1 = map (\<lambda>x. x + 0.001 * x\<^sup>2) audio;
          audio2 = (if length audio1 > 1 then apply_vintage_highpass sample_rate audio1 20
                    else audio1);
          audio3 = map (\<lambda>x. x * 0.9) audio2
      in map clip audio3)"

text \<open>\<open>VintageDSP.process\<close>: the seven stages in order.\<close>

definition process :: "nat \<Rightarrow> nat \<Rightarrow> (nat \<Rightarrow> real) \<Rightarrow> real list \<Rightarrow> real list" where
  "process sample_rate bit_depth quantization_noise audio =
     (if length audio = 0 then audio
      else let audio1 = simulate_analog_frontend audio;
               audio2 = apply_vintage_antialiasing sample_rate audio1;
               audio3 = apply_bit_crushing bit_depth quantization_noise audio2;
               audio4 = apply_sample_rate_artifacts sample_rate audio3;
               audio5 = apply_frequency_response_shaping sample_rate audio4;
               audio6 = apply_vintage_compression audio5
           in apply_output_stage_processing sample_rate audio6)"

section \<open>Intensity-scalable vintage chain (enhanced\_vintage\_dsp.py)\<close>

text \<open>
  The attributes that \<open>EnhancedVintageDSP.__init__\<close> reads from the configuration.
\<close>

record dsp_config =
  sample_rate :: nat
  bit_depth :: nat
  vintage_intensity :: real
  vintage_enabled :: bool
  vintage_preset :: string
  quantization_noise :: bool
  analog_simulation :: bool
  frequency_response_shaping :: bool
  spectral_enhancement :: bool
  harmonic_enrichment :: bool
  noise_reduction :: bool
  temporal_smoothing :: bool

text \<open>The defaults that \<open>__init__\<close> uses for keys missing from the configuration.\<close>

definition default_config :: dsp_config where
  "default_config =
     \<lparr>sample_rate = 22050, bit_depth = 8, vintage_intensity = 1.0, vintage_enabled = True,
      vintage_preset = ''dr_sbaitso'', quantization_noise = True, analog_simulation = True,
      frequency_response_shaping = True, spectral_enhancement = False,
      harmonic_enrichment = False, noise_reduction = False, temporal_smoothing = False\<rparr>"

text \<open>
  The random draws of one call, in the order the chain makes them: thermal noise, the
  uniform quantization noise and the triangular dither of the bit crusher, the noise floor
  of the Sound Blaster stage, and the two draws of the bit crusher run again by the preset
  \<open>subtle_vintage\<close>.
\<close>

record noise_draws =
  thermal_draw :: "nat \<Rightarrow> real"
  quantization_draw :: "nat \<Rightarrow> real"
  dither_draw :: "nat \<Rightarrow> real"
  sb_draw :: "nat \<Rightarrow> real"
  preset_quantization_draw :: "nat \<Rightarrow> real"
  preset_dither_draw :: "nat \<Rightarrow> real"

text \<open>The draws that are all zero, for runs on concrete buffers.\<close>

definition zero_draws :: noise_draws where
  "zero_draws =
     \<lparr>thermal_draw = (\<lambda>_. 0), quantization_draw = (\<lambda>_. 0), dither_draw = (\<lambda>_. 0),
      sb_draw = (\<lambda>_. 0), preset_quantization_draw = (\<lambda>_. 0),
      preset_dither_draw = (\<lambda>_. 0)\<rparr>"

definition max_frequency :: "dsp_config \<Rightarrow> real" where
  "max_frequency c =
     (if vintage_intensity c > 0.8 then 8000
      else if vintage_intensity c > 0.5 then 11025
      else real (min (sample_rate c div 2) 16000))"

definition simulate_analog_frontend_enhanced ::
  "dsp_config \<Rightarrow> noise_draws \<Rightarrow> real list \<Rightarrow> real list" where
  "simulate_analog_frontend_enhanced c nz audio =
     (let distortion_amount = 0.002 * vintage_intensity c;
          dc_offset = 0.001 * vintage_intensity c;
          audio1 = map (\<lambda>x. x + distortion_amount * sgn x * x\<^sup>2) audio;
          audio2 = map (\<lambda>x. x + dc_offset) audio1
      in if bit_depth c \<le> 8 then add_noise (thermal_draw nz) audio2 else audio2)"

text \<open>
  \<open>_apply_high_quality_lowpass\<close>: the same two poles, and the same \<open>IndexError\<close> on an
  empty buffer at \<open>y1[0] = audio[0] * (1 - alpha)\<close>.
\<close>

definition high_quality_lowpass_on :: "nat \<Rightarrow> real \<Rightarrow> real list \<Rightarrow> real \<Rightarrow> real list" where
  "high_quality_lowpass_on sr x xs cutoff_freq =
     (let omega = 2 * pi * cutoff_freq / real sr;
          alpha = exp (- omega)
      in lowpass_two_stages alpha x xs)"

definition apply_high_quality_lowpass :: "nat \<Rightarrow> real list \<Rightarrow> real \<Rightarrow> dsp_error + real list" where
  "apply_high_quality_lowpass sr audio cutoff_freq =
     (case audio of
        [] \<Rightarrow> Inl IndexError
      | x # xs \<Rightarrow> Inr (high_quality_lowpass_on sr x xs cutoff_freq))"

definition apply_speech_emphasis_enhanced :: "nat \<Rightarrow> real list \<Rightarrow> real \<Rightarrow> real list" where
  "apply_speech_emphasis_enhanced sr audio gain =
     (if length audio \<le> 2 then map (\<lambda>x. x * gain) audio
      else let center_freq = 3000;
               omega_c = 2 * pi * center_freq / real sr;
               a = 0.95;
               b = (gain - 1.0) * 0.5
           in audio ! 0 # audio ! 1 #
              emphasis_loop a b omega_c (audio ! 1) (audio ! 0) (drop 2 audio))"

text \<open>
  As in the baseline, the shaping calls its low-pass on two samples or more, where the
  call returns.
\<close>

definition apply_frequency_response_shaping_enhanced ::
  "dsp_config \<Rightarrow> real list \<Rightarrow> real list" where
  "apply_frequency_response_shaping_enhanced c audio =
     (if length audio \<le> 1 then audio
      else let cutoff_freq = max_frequency c * (1.0 - vintage_intensity c * 0.3);
               audio1 = (if vintage_intensity c < 0.5
                         then high_quality_lowpass_on (sample_rate c) (hd audio) (tl audio)
                                cutoff_freq
                         else vintage_lowpass_on (sample_rate c) (hd audio) (tl audio)
                                cutoff_freq);
               bass_cutoff = 200 * (1.0 + vintage_intensity c * 0.5);
               audio2 = apply_vintage_highpass (sample_rate c) audio1 bass_cutoff
           in if vintage_intensity c > 0.3
              then let emphasis_gain = 1.0 + 0.2 * vintage_intensity c
                   in apply_speech_emphasis_enhanced (sample_rate c) audio2 emphasis_gain
              else audio2)"

definition effective_bits :: "dsp_config \<Rightarrow> nat" where
  "effective_bits c =
     (if vintage_intensity c < 1.0
      then let max_bits = (if bit_depth c > 8 then 16 else bit_depth c)
           in nat (py_int (real (bit_depth c) +
                (real max_bits - real (bit_depth c)) * (1.0 - vintage_intensity c)))
      else bit_depth c)"

definition apply_enhanced_bit_crushing ::
  "dsp_config \<Rightarrow> (nat \<Rightarrow> real) \<Rightarrow> (nat \<Rightarrow> real) \<Rightarrow> real list \<Rightarrow> real list" where
  "apply_enhanced_bit_crushing c noise dither audio =
     (if bit_depth c \<ge> 16 \<and> vintage_intensity c < 0.3 then audio
      else let max_level = max_level_of (effective_bits c);
               quantized = map (quantize max_level) audio;
               quantized1 = (if quantization_noise c \<and> vintage_intensity c > 0
                             then add_noise noise quantized else quantized);
               quantized2 = (if bit_depth c \<ge> 12 \<and> vintage_intensity c < 0.8
                             then add_noise dither quantized1 else quantized1)
           in map clip quantized2)"

definition apply_vintage_compression_enhanced :: "dsp_config \<Rightarrow> real list \<Rightarrow> real list" where
  "apply_vintage_compression_enhanced c audio =
     (if length audio = 0 then audio
      else let threshold = 0.8 - vintage_intensity c * 0.2;
               ratio = 2.0 + vintage_intensity c * 2.0;
               attack_coef = 0.1 * (1.0 + vintage_intensity c);
               release_coef = 0.001 * (1.0 + vintage_intensity c * 2.0)
           in compress threshold ratio attack_coef release_coef audio)"

definition apply_spectral_enhancement :: "nat \<Rightarrow> real list \<Rightarrow> real list" where
  "apply_spectral_enhancement sr audio =
     (if length audio \<le> 1 then audio
      else let harmonic_gain = 0.05
           in map (\<lambda>i. audio ! i + harmonic_gain * sin (2 * pi * real i / real sr * 1000))
                [0..<length audio])"

definition apply_harmonic_enrichment :: "real list \<Rightarrow> real list" where
  "apply_harmonic_enrichment audio =
     (if length audio = 0 then audio
      else let harmonic_amount = 0.01
           in map (\<lambda>x. clip (x + harmonic_amount * x\<^sup>2 * sgn x)) audio)"

definition apply_noise_reduction :: "real list \<Rightarrow> real list" where
  "apply_noise_reduction audio =
     (if length audio \<le> 1 then audio
      else let window_size = min 512 (length audio div 4)
           in if window_size < 2 then audio
              else let threshold = 0.01;
                       gate_ratio = 0.5;
                       windowed_energy = convolve_same (map (\<lambda>x. x\<^sup>2) audio)
                                           (replicate window_size (1 / real window_size))
                   in map (\<lambda>(x, e). x * (if e < threshold then gate_ratio else 1.0))
                        (zip audio windowed_energy))"

text \<open>
  The blend adds two arrays; numpy raises \<open>ValueError\<close> when their shapes differ, which
  happens for two samples, where the smoothed array has three.
\<close>

definition apply_temporal_smoothing :: "real list \<Rightarrow> dsp_error + real list" where
  "apply_temporal_smoothing audio =
     (if length audio \<le> 1 then Inr audio
      else let kernel_size = 3;
               kernel = replicate kernel_size (1 / real kernel_size);
               smoothed = convolve_same audio kernel;
               blend_factor = 0.3
           in if length smoothed \<noteq> length audio then Inl ValueError
              else Inr (map (\<lambda>(x, s). (1.0 - blend_factor) * x + blend_factor * s)
                         (zip audio smoothed)))"

text \<open>
  \<open>astype(np.uint8)\<close> truncates; a value outside 0..255 wraps modulo 256 on the usual
  platforms.
\<close>

definition to_uint8 :: "real \<Rightarrow> nat" where
  "to_uint8 x = nat (py_int x mod 256)"

definition apply_sound_blaster_characteristics ::
  "nat \<Rightarrow> nat \<Rightarrow> (nat \<Rightarrow> real) \<Rightarrow> real list \<Rightarrow> dsp_error + real list" where
  "apply_sound_blaster_characteristics sr bits sb_noise audio =
     (let audio1 = (if bits = 8
                    then map (\<lambda>x. real (to_uint8 ((x + 1.0) * 127.5)) / 127.5 - 1.0) audio
                    else audio)
      in and_then (apply_vintage_lowpass sr audio1 11000)
           (\<lambda>audio2. Inr (add_noise sb_noise audio2)))"

definition apply_preset_processing ::
  "dsp_config \<Rightarrow> noise_draws \<Rightarrow> real list \<Rightarrow> dsp_error + real list" where
  "apply_preset_processing c nz audio =
     (if vintage_preset c = ''dr_sbaitso''
      then apply_sound_blaster_characteristics (sample_rate c) (bit_depth c) (sb_draw nz) audio
      else if vintage_preset c = ''dr_sbaitso_enhanced''
      then and_then
             (apply_sound_blaster_characteristics (sample_rate c) (bit_depth c) (sb_draw nz) audio)
             (\<lambda>audio1. if bit_depth c \<ge> 12
                       then apply_high_quality_lowpass (sample_rate c) audio1 10000
                       else Inr audio1)
      else if vintage_preset c = ''subtle_vintage''
      then let audio1 = apply_enhanced_bit_crushing c (preset_quantization_draw nz)
                          (preset_dither_draw nz) audio
           in apply_high_quality_lowpass (sample_rate c) audio1 12000
      else Inr audio)"

definition apply_vintage_processing_chain ::
  "dsp_config \<Rightarrow> noise_draws \<Rightarrow> real list \<Rightarrow> dsp_error + real list" where
  "apply_vintage_processing_chain c nz audio =
     (let v1 = (if analog_simulation c then simulate_analog_frontend_enhanced c nz audio
                else audio);
          v2 = (if frequency_response_shaping c
                then apply_frequency_response_shaping_enhanced c v1 else v1);
          v3 = apply_enhanced_bit_crushing c (quantization_draw nz) (dither_draw nz) v2;
          v4 = apply_vintage_compression_enhanced c v3
      in and_then (apply_preset_processing c nz v4)
           (\<lambda>v5. if vintage_intensity c < 1.0
                  then let clean_ratio = 1.0 - vintage_intensity c
                       in Inr (map (\<lambda>(v, x). vintage_intensity c * v + clean_ratio * x)
                                 (zip v5 audio))
                  else Inr v5))"

text \<open>\<open>EnhancedVintageDSP.process\<close>.\<close>

definition enhanced_process ::
  "dsp_config \<Rightarrow> noise_draws \<Rightarrow> real list \<Rightarrow> dsp_error + real list" where
  "enhanced_process c nz audio =
     (if length audio = 0 then Inr audio
      else let p1 = (if spectral_enhancement c
                     then apply_spectral_enhancement (sample_rate c) audio else audio);
               p2 = (if harmonic_enrichment c then apply_harmonic_enrichment p1 else p1)
           in and_then (if vintage_enabled c \<and> vintage_intensity c > 0
                        then apply_vintage_processing_chain c nz p2 else Inr p2)
                (\<lambda>p3. let p4 = (if noise_reduction c then apply_noise_reduction p3 else p3)
                      in if temporal_smoothing c then apply_temporal_smoothing p4 else Inr p4))"

section \<open>Properties of the diphone sequencer\<close>

lemmas is_pause_simps = is_pause_def startswith_def

lemma length_adjacent_units: "length (adjacent_units ps) = length ps - 1"
  by (simp add: adjacent_units_def)

lemma nth_adjacent_units:
  "i + 1 < length ps \<Longrightarrow> adjacent_units ps ! i = pair_unit (ps ! i) (ps ! (i + 1))"
  by (simp add: adjacent_units_def less_diff_conv)

lemma length_leading_silence:
  "length (leading_silence ps) = (if ps \<noteq> [] \<and> \<not> is_pause (hd ps) then 1 else 0)"
  by (simp add: leading_silence_def)

text \<open>
  C6 (as the code has it). The unit for the adjacent pair \<open>(p[i], p[i+1])\<close> is stored right
  after the optional leading \<open>SIL-\<close> transition. When either element of the pair is a pause
  marker the unit is the current element \<open>p[i]\<close> itself, whether it is the pause marker or a
  plain phoneme; otherwise it is the diphone \<open>p[i]-p[i+1]\<close>.
\<close>

theorem adjacent_pair_unit:
  assumes "i + 1 < length ps"
  shows "phonemes_to_diphones ps ! (length (leading_silence ps) + i) =
           (if is_pause (ps ! i) \<or> is_pause (ps ! (i + 1)) then ps ! i
            else ps ! i @ ''-'' @ ps ! (i + 1))"
proof -
  have "i < length (adjacent_units ps)"
    using assms by (simp add: length_adjacent_units)
  then have "phonemes_to_diphones ps ! (length (leading_silence ps) + i) = adjacent_units ps ! i"
    by (simp add: phonemes_to_diphones_def nth_append)
  then show ?thesis
    using assms by (simp add: nth_adjacent_units pair_unit_def)
qed

theorem adjacent_pair_unit_witness:
  "phonemes_to_diphones [''HH'', ''<PAUSE_SHORT>'', ''AE'', ''N''] ! 1 = ''HH'' \<and>
   phonemes_to_diphones [''HH'', ''<PAUSE_SHORT>'', ''AE'', ''N''] ! 2 = ''<PAUSE_SHORT>'' \<and>
   phonemes_to_diphones [''HH'', ''<PAUSE_SHORT>'', ''AE'', ''N''] ! 3 = ''AE-N''"
  using adjacent_pair_unit [of 0 "[''HH'', ''<PAUSE_SHORT>'', ''AE'', ''N'']"]
    adjacent_pair_unit [of 1 "[''HH'', ''<PAUSE_SHORT>'', ''AE'', ''N'']"]
    adjacent_pair_unit [of 2 "[''HH'', ''<PAUSE_SHORT>'', ''AE'', ''N'']"]
  by (simp add: leading_silence_def is_pause_simps eval_nat_numeral)

text \<open>
  C6 (as the claim states it) fails on the pair \<open>(AE, <PAUSE_SHORT>)\<close>: the pair holds a
  pause marker, yet the units emitted are \<open>SIL-AE\<close> and the bare phoneme \<open>AE\<close>; no unit is
  a pause marker.
\<close>

theorem pause_marker_not_emitted_counterexample:
  "phonemes_to_diphones [''AE'', ''<PAUSE_SHORT>''] = [''SIL-AE'', ''AE''] \<and>
   is_pause ''<PAUSE_SHORT>'' \<and>
   \<not> list_ex is_pause (phonemes_to_diphones [''AE'', ''<PAUSE_SHORT>''])"
  by (simp add: phonemes_to_diphones_def leading_silence_def adjacent_units_def
      trailing_silence_def pair_unit_def is_pause_simps)

section \<open>Properties of the durations\<close>

text \<open>
  C2 (as the code has it). A diphone touching \<open>SIL\<close> lasts the constant 0.04 s, half the
  0.08 s base and not half the start phoneme's table value. Any other diphone lasts the
  start phoneme's table value (0.08 s for a symbol missing from the table), whatever the end
  phoneme is. So \<open>(AE, N)\<close> lasts 0.10 s and \<open>(AE, SIL)\<close> lasts 0.04 s.
\<close>

theorem diphone_duration_cases:
  "get_diphone_duration s e =
     (if s = ''SIL'' \<or> e = ''SIL'' then 0.04
      else case map_of phoneme_durations s of Some d \<Rightarrow> d | None \<Rightarrow> 0.08) \<and>
   (e \<noteq> ''SIL'' \<and> e' \<noteq> ''SIL'' \<longrightarrow> get_diphone_duration s e = get_diphone_duration s e') \<and>
   get_diphone_duration ''AE'' ''N'' = 0.10 \<and>
   get_diphone_duration ''AE'' ''SIL'' = 0.04"
  by (simp add: get_diphone_duration_def base_duration_def phoneme_durations_def)

theorem diphone_duration_cases_witness:
  "''N'' \<noteq> ''SIL'' \<and> ''T'' \<noteq> ''SIL'' \<and>
   get_diphone_duration ''AE'' ''N'' = get_diphone_duration ''AE'' ''T'' \<and>
   get_diphone_duration ''AE'' ''T'' = 0.10"
  using diphone_duration_cases [of "''AE''" "''N''" "''T''"]
  by simp

text \<open>
  C2 (as the claim states it) fails: \<open>(AE, SIL)\<close> does not last 0.05 s, half of AE's 0.10 s.
\<close>

theorem silence_diphone_duration_counterexample:
  "get_diphone_duration ''AE'' ''SIL'' \<noteq> 0.05 \<and>
   get_diphone_duration ''AE'' ''SIL'' \<noteq> (case map_of phoneme_durations ''AE'' of Some d \<Rightarrow> d / 2 | None \<Rightarrow> 0)"
  by (simp add: get_diphone_duration_def base_duration_def phoneme_durations_def)

section \<open>Properties of the formant filter\<close>

lemma length_formant_filter_step:
  "length (formant_filter_step sr bw x f a out i) = length out"
  by (simp add: formant_filter_step_def Let_def)

lemma formant_filter_step_other:
  "j \<noteq> i \<Longrightarrow> formant_filter_step sr bw x f a out i ! j = out ! j"
  by (simp add: formant_filter_step_def Let_def)

lemma formant_filter_step_at:
  "i < length out \<Longrightarrow>
   formant_filter_step sr bw x f a out i ! i =
     (if f ! i > 0
      then (if i \<ge> 2
            then a ! i * x ! i + 2 * (1 - bw / real sr) * cos (2 * pi * f ! i / real sr) * out ! (i - 1)
                 - (1 - bw / real sr) * (1 - bw / real sr) * out ! (i - 2)
            else a ! i * x ! i)
      else out ! i)"
  by (simp add: formant_filter_step_def Let_def)

lemma filter_prefix_Suc:
  "filter_prefix sr bw x f a (Suc k) = formant_filter_step sr bw x f a (filter_prefix sr bw x f a k) k"
  by (simp add: filter_prefix_def)

lemma length_filter_prefix: "length (filter_prefix sr bw x f a k) = length x"
  by (induction k) (simp_all add: filter_prefix_Suc length_formant_filter_step, simp add: filter_prefix_def)

lemma filter_prefix_untouched:
  "k \<le> j \<Longrightarrow> j < length x \<Longrightarrow> filter_prefix sr bw x f a k ! j = 0"
proof (induction k)
  case 0
  then show ?case by (simp add: filter_prefix_def)
next
  case (Suc k)
  then show ?case by (simp add: filter_prefix_Suc formant_filter_step_other)
qed

lemma filter_prefix_stable:
  "j < k \<Longrightarrow> k \<le> m \<Longrightarrow> filter_prefix sr bw x f a m ! j = filter_prefix sr bw x f a k ! j"
proof (induction m)
  case 0
  then show ?case by simp
next
  case (Suc m)
  show ?case
  proof (cases "k = Suc m")
    case True
    then show ?thesis by simp
  next
    case False
    with Suc.prems have "k \<le> m" by simp
    with Suc have "filter_prefix sr bw x f a m ! j = filter_prefix sr bw x f a k ! j" by simp
    moreover have "j \<noteq> m" using Suc.prems \<open>k \<le> m\<close> by simp
    ultimately show ?thesis by (simp add: filter_prefix_Suc formant_filter_step_other)
  qed
qed

lemma apply_formant_filter_prefix:
  "apply_formant_filter sr x f a bw = filter_prefix sr bw x f a (length x)"
  by (simp add: apply_formant_filter_def filter_prefix_def)

lemma length_apply_formant_filter: "length (apply_formant_filter sr x f a bw) = length x"
  by (simp add: apply_formant_filter_prefix length_filter_prefix)

text \<open>
  C7 (as the code has it). For a source and contours of the same length, each output sample
  of the resonator at an index where the instantaneous frequency is positive satisfies
  \<open>y[n] = amp * x[n] + 2 * r * cos(omega) * y[n-1] - r * r * y[n-2]\<close> from the third sample
  on and \<open>y[n] = amp * x[n]\<close> for the first two, with \<open>r = 1 - bandwidth / sample_rate\<close> and
  \<open>omega = 2 * pi * freq / sample_rate\<close>; at an index where the frequency is zero or
  negative the output sample is 0. The filter takes no state from outside: its output
  starts as zeros on every call, so nothing is carried from one diphone to the next.
\<close>

theorem formant_filter_recurrence:
  assumes "i < length source"
    and "length formant_freq = length source" and "length amplitude = length source"
  shows "length (apply_formant_filter sr source formant_freq amplitude bandwidth) = length source \<and>
         apply_formant_filter sr source formant_freq amplitude bandwidth ! i =
           (if formant_freq ! i > 0
            then (if i \<ge> 2
                  then amplitude ! i * source ! i
                       + 2 * (1 - bandwidth / real sr) * cos (2 * pi * formant_freq ! i / real sr)
                         * apply_formant_filter sr source formant_freq amplitude bandwidth ! (i - 1)
                       - (1 - bandwidth / real sr) * (1 - bandwidth / real sr)
                         * apply_formant_filter sr source formant_freq amplitude bandwidth ! (i - 2)
                  else amplitude ! i * source ! i)
            else 0)"
proof -
  let ?P = "filter_prefix sr bandwidth source formant_freq amplitude"
  define y where "y = apply_formant_filter sr source formant_freq amplitude bandwidth"
  define r where "r = 1 - bandwidth / real sr"
  have y: "y = ?P (length source)"
    by (simp add: y_def apply_formant_filter_prefix)
  have at: "y ! i = ?P (Suc i) ! i"
    using assms(1) filter_prefix_stable [of i "Suc i" "length source" sr bandwidth source formant_freq amplitude]
    by (simp add: y)
  have zero: "?P i ! i = 0"
    using assms(1) by (simp add: filter_prefix_untouched)
  have prev1: "i \<ge> 2 \<Longrightarrow> ?P i ! (i - 1) = y ! (i - 1)"
    using assms(1) filter_prefix_stable [of "i - 1" i "length source" sr bandwidth source formant_freq amplitude]
    by (simp add: y)
  have prev2: "i \<ge> 2 \<Longrightarrow> ?P i ! (i - 2) = y ! (i - 2)"
    using assms(1) filter_prefix_stable [of "i - 2" i "length source" sr bandwidth source formant_freq amplitude]
    by (simp add: y)
  have "?P (Suc i) ! i =
      (if formant_freq ! i > 0
       then (if i \<ge> 2
             then amplitude ! i * source ! i
                  + 2 * r * cos (2 * pi * formant_freq ! i / real sr) * ?P i ! (i - 1)
                  - r * r * ?P i ! (i - 2)
             else amplitude ! i * source ! i)
       else ?P i ! i)"
    using assms(1)
    by (simp only: filter_prefix_Suc formant_filter_step_at length_filter_prefix r_def)
  then have "length y = length source \<and>
         y ! i = (if formant_freq ! i > 0
                  then (if i \<ge> 2
                        then amplitude ! i * source ! i
                             + 2 * r * cos (2 * pi * formant_freq ! i / real sr) * y ! (i - 1)
                             - r * r * y ! (i - 2)
                        else amplitude ! i * source ! i)
                  else 0)"
    using at zero prev1 prev2 by (simp add: y length_filter_prefix)
  then show ?thesis
    by (simp only: y_def r_def)
qed

theorem formant_filter_recurrence_witness:
  "(2::nat) < length [0, 1, 1 :: real] \<and>
   length [660, 330, 165 :: real] = length [0, 1, 1 :: real] \<and>
   length [1, 1, 1 :: real] = length [0, 1, 1 :: real] \<and>
   apply_formant_filter 22050 [0, 1, 1] [660, 330, 165] [1, 1, 1] 100 ! 2 =
     1 * 1 + 2 * (1 - 100 / 22050) * cos (2 * pi * 165 / 22050)
               * apply_formant_filter 22050 [0, 1, 1] [660, 330, 165] [1, 1, 1] 100 ! 1
           - (1 - 100 / 22050) * (1 - 100 / 22050)
               * apply_formant_filter 22050 [0, 1, 1] [660, 330, 165] [1, 1, 1] 100 ! 0 \<and>
   apply_formant_filter 22050 [0, 1, 1] [660, 330, 165] [1, 1, 1] 100 ! 1 = 1 \<and>
   apply_formant_filter 22050 [0, 1, 1] [660, 330, 165] [1, 1, 1] 100 ! 0 = 0"
  using formant_filter_recurrence [of 2 "[0, 1, 1]" "[660, 330, 165]" "[1, 1, 1]" 22050 100]
    formant_filter_recurrence [of 1 "[0, 1, 1]" "[660, 330, 165]" "[1, 1, 1]" 22050 100]
    formant_filter_recurrence [of 0 "[0, 1, 1]" "[660, 330, 165]" "[1, 1, 1]" 22050 100]
  by simp

text \<open>
  C7 (as the claim states it) fails where a contour reaches frequency 0, as it does on the
  last sample of a diphone that ends in \<open>SIL\<close>. Over three samples the contours from AE to
  SIL are \<open>[660, 330, 0]\<close> and \<open>[1, 0.5, 0]\<close>; on the source \<open>[0, 1, 1]\<close> the filter returns
  \<open>[0, 0.5, 0]\<close>, while the recurrence asks for \<open>2 * r * cos(0) * 0.5 = r\<close> at the last sample.
\<close>

theorem formant_filter_zero_frequency_counterexample:
  "linspace 660 0 3 = [660, 330, 0] \<and> linspace 1 0 3 = [1, 1 / 2, 0] \<and>
   apply_formant_filter 22050 [0, 1, 1] [660, 330, 0] [1, 1 / 2, 0] 100 = [0, 1 / 2, 0] \<and>
   apply_formant_filter 22050 [0, 1, 1] [660, 330, 0] [1, 1 / 2, 0] 100 ! 2 \<noteq>
     0 * 1 + 2 * (1 - 100 / 22050) * cos (2 * pi * 0 / 22050)
               * apply_formant_filter 22050 [0, 1, 1] [660, 330, 0] [1, 1 / 2, 0] 100 ! 1
           - (1 - 100 / 22050) * (1 - 100 / 22050)
               * apply_formant_filter 22050 [0, 1, 1] [660, 330, 0] [1, 1 / 2, 0] 100 ! 0"
  by (simp add: apply_formant_filter_def formant_filter_step_def linspace_def upt_rec)

section \<open>Properties of the baseline vintage chain\<close>

subsection \<open>Every stage keeps the length of the buffer\<close>

lemma length_lowpass_loop: "length (lowpass_loop alpha prev xs) = length xs"
  by (induction xs arbitrary: prev) (simp_all add: Let_def)

lemma length_one_pole: "length (one_pole alpha x xs) = Suc (length xs)"
  by (simp add: one_pole_def Let_def length_lowpass_loop)

lemma length_lowpass_two_stages: "length (lowpass_two_stages alpha x xs) = Suc (length xs)"
  by (simp add: lowpass_two_stages_def one_pole_def Let_def length_lowpass_loop)

lemma length_highpass_loop: "length (highpass_loop alpha po pin xs) = length xs"
  by (induction xs arbitrary: po pin) (simp_all add: Let_def)

lemma length_emphasis_loop: "length (emphasis_loop a b w o1 o2 xs) = length xs"
  by (induction xs arbitrary: o1 o2) (simp_all add: Let_def)

lemma length_envelope_loop: "length (envelope_loop a r prev xs) = length xs"
  by (induction xs arbitrary: prev) (simp_all add: Let_def)

lemma length_smooth_envelope: "length (smooth_envelope a r xs) = length xs"
  by (cases xs) (simp_all add: smooth_envelope_def length_envelope_loop)

lemma length_simulate_analog_frontend: "length (simulate_analog_frontend xs) = length xs"
  by (simp add: simulate_analog_frontend_def)

lemma length_apply_vintage_antialiasing: "length (apply_vintage_antialiasing sr xs) = length xs"
  by (cases xs) (simp_all add: apply_vintage_antialiasing_def length_one_pole)

lemma length_add_noise: "length (add_noise nz xs) = length xs"
  by (simp add: add_noise_def)

lemma length_apply_bit_crushing: "length (apply_bit_crushing bd nz xs) = length xs"
  by (simp add: apply_bit_crushing_def length_add_noise)

lemma length_apply_sample_rate_artifacts: "length (apply_sample_rate_artifacts sr xs) = length xs"
  by (simp add: apply_sample_rate_artifacts_def)

lemma length_vintage_lowpass_on: "length (vintage_lowpass_on sr x xs c) = Suc (length xs)"
  by (simp add: vintage_lowpass_on_def Let_def length_lowpass_two_stages)

lemma apply_vintage_lowpass_returns:
  "xs \<noteq> [] \<Longrightarrow> \<exists>ys. apply_vintage_lowpass sr xs c = Inr ys \<and> length ys = length xs"
  by (cases xs) (simp_all add: apply_vintage_lowpass_def length_vintage_lowpass_on)

lemma length_apply_vintage_highpass: "length (apply_vintage_highpass sr xs c) = length xs"
  by (cases xs) (simp_all add: apply_vintage_highpass_def length_highpass_loop Let_def)

lemma length_apply_speech_emphasis: "length (apply_speech_emphasis sr xs) = length xs"
  by (auto simp add: apply_speech_emphasis_def length_emphasis_loop Let_def)

lemma length_apply_frequency_response_shaping:
  "length (apply_frequency_response_shaping sr xs) = length xs"
  by (cases xs) (simp_all add: apply_frequency_response_shaping_def length_apply_speech_emphasis
      length_apply_vintage_highpass length_vintage_lowpass_on)

lemma length_compress: "length (compress t r a rl xs) = length xs"
  by (simp add: compress_def length_smooth_envelope)

lemma length_apply_vintage_compression: "length (apply_vintage_compression xs) = length xs"
  by (simp add: apply_vintage_compression_def length_compress)

lemma length_apply_output_stage_processing:
  "length (apply_output_stage_processing sr xs) = length xs"
  by (simp add: apply_output_stage_processing_def length_apply_vintage_highpass Let_def)

lemma length_process: "length (process sr bd nz xs) = length xs"
  by (simp add: process_def length_apply_output_stage_processing
      length_apply_vintage_compression length_apply_frequency_response_shaping
      length_apply_sample_rate_artifacts length_apply_bit_crushing
      length_apply_vintage_antialiasing length_simulate_analog_frontend)

lemma clip_range: "- 1 \<le> clip x \<and> clip x \<le> 1"
  by (simp add: clip_def)

lemma output_stage_range:
  "x \<in> set (apply_output_stage_processing sr xs) \<Longrightarrow> - 1 \<le> x \<and> x \<le> 1"
  by (auto simp add: apply_output_stage_processing_def Let_def clip_range)


subsection \<open>Bit crushing\<close>

text \<open>
  C3 (as the code has it). At bit depth 8 the maximum level is 127, and the sample 0.5 is
  scaled to 63.5, which \<open>np.round\<close> takes to 64: the quantized value, before the noise is
  added, is 64/127 (0.5039 to four decimals). The stage then adds the noise drawn for the
  sample and clamps.
\<close>

theorem bit_crush_quantizes_half:
  "max_level_of 8 = 127 \<and>
   np_round (0.5 * 127) = 64 \<and>
   quantize (max_level_of 8) 0.5 = 64 / 127 \<and>
   \<bar>quantize (max_level_of 8) 0.5 - 0.5039\<bar> \<le> 0.00005 \<and>
   apply_bit_crushing 8 nz [0.5] = [clip (64 / 127 + nz 0)]"
  by (simp add: max_level_of_def quantize_def np_round_def apply_bit_crushing_def add_noise_def)

text \<open>
  C3 (as the claim states it) fails: the quantized value is not 0.4961 (that is 63/127)
  to four decimals.
\<close>

theorem bit_crush_quantizes_half_counterexample:
  "\<not> \<bar>quantize (max_level_of 8) 0.5 - 0.4961\<bar> \<le> 0.00005 \<and>
   quantize (max_level_of 8) 0.5 \<noteq> 63 / 127"
  by (simp add: max_level_of_def quantize_def np_round_def)

subsection \<open>Empty and one-sample buffers\<close>

text \<open>
  C8 (as the code has it). Every stage of the baseline chain, and the chain as a whole,
  returns an empty buffer unchanged. A buffer of one sample is returned unchanged by the
  anti-aliasing filter, by the sample-rate artifact stage and by the frequency-response
  shaping (they need two samples), by the bit crusher at 16 bits, and by the compressor
  when the sample does not exceed the threshold 0.8.
\<close>

theorem stages_on_short_buffers:
  "simulate_analog_frontend [] = [] \<and>
   apply_vintage_antialiasing sr [] = [] \<and>
   apply_bit_crushing bd nz [] = [] \<and>
   apply_sample_rate_artifacts sr [] = [] \<and>
   apply_frequency_response_shaping sr [] = [] \<and>
   apply_vintage_compression [] = [] \<and>
   apply_output_stage_processing sr [] = [] \<and>
   process sr bd nz [] = [] \<and>
   apply_vintage_antialiasing sr [x] = [x] \<and>
   apply_sample_rate_artifacts sr [x] = [x] \<and>
   apply_frequency_response_shaping sr [x] = [x] \<and>
   apply_bit_crushing 16 nz [x] = [x] \<and>
   (\<bar>x\<bar> \<le> 0.8 \<longrightarrow> apply_vintage_compression [x] = [x])"
  by (simp add: simulate_analog_frontend_def apply_vintage_antialiasing_def
      apply_bit_crushing_def add_noise_def apply_sample_rate_artifacts_def
      apply_frequency_response_shaping_def apply_vintage_compression_def
      apply_output_stage_processing_def process_def compress_def smooth_envelope_def
      gain_reduction_def)

theorem stages_on_short_buffers_witness:
  "\<bar>1 / 2 :: real\<bar> \<le> 0.8 \<and> apply_vintage_compression [1 / 2] = [1 / 2] \<and>
   apply_vintage_antialiasing 22050 [1 / 2] = [1 / 2]"
  using stages_on_short_buffers [of 22050 8 "\<lambda>_. 0" "1 / 2"]
  by simp

text \<open>
  C8 (as the claim states it) fails on a buffer of one sample: the analog frontend adds its
  DC offset to the sample 0, and the whole chain changes the sample 0.5.
\<close>

theorem one_sample_buffer_changed_counterexample:
  "simulate_analog_frontend [0] = [0.001] \<and>
   simulate_analog_frontend [0] \<noteq> [0] \<and>
   apply_output_stage_processing 22050 [1 / 2] \<noteq> [1 / 2]"
  by (simp add: simulate_analog_frontend_def apply_output_stage_processing_def clip_def
      power2_eq_square)

subsection \<open>Range of the output\<close>

lemma process_half: "process 22050 8 (\<lambda>_. 0) [1 / 2] = [4574304 / 10080625]"
  by (simp add: process_def simulate_analog_frontend_def apply_vintage_antialiasing_def
      apply_bit_crushing_def max_level_of_def quantize_def np_round_def add_noise_def clip_def
      apply_sample_rate_artifacts_def apply_frequency_response_shaping_def
      apply_vintage_compression_def compress_def smooth_envelope_def gain_reduction_def
      apply_output_stage_processing_def power2_eq_square)

text \<open>
  C1 (as the code has it). For every input buffer, sample rate, bit depth and noise drawn,
  the baseline chain \<open>VintageDSP.process\<close> returns a buffer of the same length whose every
  sample lies in \<open>[-1, 1]\<close>: its last step is the hard clamp of the output stage.
\<close>

theorem baseline_process_bounded:
  assumes "i < length audio"
  shows "i < length (process sr bd nz audio) \<and>
         - 1 \<le> process sr bd nz audio ! i \<and> process sr bd nz audio ! i \<le> 1"
proof -
  have len: "i < length (process sr bd nz audio)"
    using assms by (simp add: length_process)
  have "audio \<noteq> []"
    using assms by auto
  then have "process sr bd nz audio ! i \<in> set (apply_output_stage_processing sr
       (apply_vintage_compression (apply_frequency_response_shaping sr
         (apply_sample_rate_artifacts sr (apply_bit_crushing bd nz
           (apply_vintage_antialiasing sr (simulate_analog_frontend audio)))))))"
    using len by (simp add: process_def Let_def)
  then show ?thesis
    using len output_stage_range by blast
qed

theorem baseline_process_bounded_witness:
  "(0::nat) < length [1 / 2 :: real] \<and>
   process 22050 8 (\<lambda>_. 0) [1 / 2] ! 0 = 4574304 / 10080625 \<and>
   - 1 \<le> process 22050 8 (\<lambda>_. 0) [1 / 2] ! 0 \<and> process 22050 8 (\<lambda>_. 0) [1 / 2] ! 0 \<le> 1"
  using baseline_process_bounded [of 0 "[1 / 2]" 22050 8 "\<lambda>_. 0"]
  by (simp add: process_half)

section \<open>Properties of the intensity-scalable chain\<close>

text \<open>
  C1 (as the claim states it) fails for \<open>EnhancedVintageDSP.process\<close>, which has no final
  clamp. At 12000 Hz with intensity 0 and spectral enhancement on, the buffer \<open>[1, 1]\<close>,
  whose samples lie in \<open>[-1, 1]\<close>, comes back as \<open>[1, 1.025]\<close>: the enhancement adds
  \<open>0.05 * sin(pi / 6)\<close> to the second sample.
\<close>

theorem enhanced_process_exceeds_one_counterexample:
  "enhanced_process
     (default_config\<lparr>sample_rate := 12000, vintage_intensity := 0, spectral_enhancement := True\<rparr>)
     zero_draws [1, 1] = Inr [1, 41 / 40] \<and> \<not> (41 / 40 :: real) \<le> 1"
  by (simp add: enhanced_process_def and_then_def default_config_def
      apply_spectral_enhancement_def upt_rec sin_30)

lemma length_simulate_analog_frontend_enhanced:
  "length (simulate_analog_frontend_enhanced c nz xs) = length xs"
  by (simp add: simulate_analog_frontend_enhanced_def Let_def length_add_noise)

lemma length_high_quality_lowpass_on:
  "length (high_quality_lowpass_on sr x xs cf) = Suc (length xs)"
  by (simp add: high_quality_lowpass_on_def Let_def length_lowpass_two_stages)

lemma apply_high_quality_lowpass_returns:
  "xs \<noteq> [] \<Longrightarrow> \<exists>ys. apply_high_quality_lowpass sr xs cf = Inr ys \<and> length ys = length xs"
  by (cases xs) (simp_all add: apply_high_quality_lowpass_def length_high_quality_lowpass_on)

lemma length_apply_speech_emphasis_enhanced:
  "length (apply_speech_emphasis_enhanced sr xs g) = length xs"
  by (auto simp add: apply_speech_emphasis_enhanced_def Let_def length_emphasis_loop)

lemma length_apply_frequency_response_shaping_enhanced:
  "length (apply_frequency_response_shaping_enhanced c xs) = length xs"
  by (cases xs) (simp_all add: apply_frequency_response_shaping_enhanced_def Let_def
      length_high_quality_lowpass_on length_vintage_lowpass_on
      length_apply_vintage_highpass length_apply_speech_emphasis_enhanced)

lemma length_apply_enhanced_bit_crushing:
  "length (apply_enhanced_bit_crushing c n d xs) = length xs"
  by (simp add: apply_enhanced_bit_crushing_def Let_def length_add_noise)

lemma length_apply_vintage_compression_enhanced:
  "length (apply_vintage_compression_enhanced c xs) = length xs"
  by (simp add: apply_vintage_compression_enhanced_def Let_def length_compress)

lemma apply_sound_blaster_characteristics_returns:
  assumes "xs \<noteq> []"
  shows "\<exists>ys. apply_sound_blaster_characteristics sr b n xs = Inr ys \<and> length ys = length xs"
proof -
  let ?xs1 = "if b = 8 then map (\<lambda>x. real (to_uint8 ((x + 1.0) * 127.5)) / 127.5 - 1.0) xs else xs"
  have "?xs1 \<noteq> []" and len: "length ?xs1 = length xs"
    using assms by simp_all
  then obtain ys where "apply_vintage_lowpass sr ?xs1 11000 = Inr ys" and "length ys = length ?xs1"
    using apply_vintage_lowpass_returns by blast
  then show ?thesis
    using len by (simp add: apply_sound_blaster_characteristics_def and_then_def
        length_add_noise)
qed

lemma apply_preset_processing_returns:
  assumes "xs \<noteq> []"
  shows "\<exists>ys. apply_preset_processing c nz xs = Inr ys \<and> length ys = length xs"
proof -
  obtain sb where sb: "apply_sound_blaster_characteristics (sample_rate c) (bit_depth c)
        (sb_draw nz) xs = Inr sb" and lsb: "length sb = length xs"
    using assms apply_sound_blaster_characteristics_returns by blast
  then have "sb \<noteq> []"
    using assms by auto
  then obtain hq where hq: "apply_high_quality_lowpass (sample_rate c) sb 10000 = Inr hq"
      and lhq: "length hq = length sb"
    using apply_high_quality_lowpass_returns by blast
  let ?bc = "apply_enhanced_bit_crushing c (preset_quantization_draw nz) (preset_dither_draw nz) xs"
  have "?bc \<noteq> []"
    using assms length_apply_enhanced_bit_crushing [of c _ _ xs] by (metis length_0_conv)
  then obtain sv where sv: "apply_high_quality_lowpass (sample_rate c) ?bc 12000 = Inr sv"
      and lsv: "length sv = length ?bc"
    using apply_high_quality_lowpass_returns by blast
  show ?thesis
    using sb lsb hq lhq sv lsv
    by (simp add: apply_preset_processing_def and_then_def Let_def
        length_apply_enhanced_bit_crushing)
qed

lemma blend_clean:
  "length v = length xs \<Longrightarrow> map2 (\<lambda>v. (*) (1::real)) v xs = xs"
  by (rule nth_equalityI) simp_all

text \<open>
  On a buffer that is not empty the vintage chain proper returns, and at intensity 0 its
  blend returns the clean signal.
\<close>

lemma chain_zero_intensity:
  assumes "vintage_intensity c = 0" and "audio \<noteq> []"
  shows "apply_vintage_processing_chain c nz audio = Inr audio"
proof -
  let ?v1 = "if analog_simulation c then simulate_analog_frontend_enhanced c nz audio else audio"
  let ?v2 = "if frequency_response_shaping c
             then apply_frequency_response_shaping_enhanced c ?v1 else ?v1"
  let ?v4 = "apply_vintage_compression_enhanced c
               (apply_enhanced_bit_crushing c (quantization_draw nz) (dither_draw nz) ?v2)"
  have len4: "length ?v4 = length audio"
    by (simp add: length_apply_vintage_compression_enhanced length_apply_enhanced_bit_crushing
        length_apply_frequency_response_shaping_enhanced length_simulate_analog_frontend_enhanced)
  then have "?v4 \<noteq> []"
    using assms(2) by (metis length_0_conv)
  then obtain v5 where v5: "apply_preset_processing c nz ?v4 = Inr v5"
      and len5: "length v5 = length ?v4"
    using apply_preset_processing_returns by blast
  show ?thesis
    using assms(1) v5 len5 len4
    by (simp add: apply_vintage_processing_chain_def Let_def and_then_def blend_clean
        split del: if_split)
qed

text \<open>
  C5. With bit depth 16 and intensity 0, and the four enhancement stages (spectral
  enhancement, harmonic enrichment, noise reduction, temporal smoothing) off as they are by
  default, \<open>EnhancedVintageDSP.process\<close> returns a buffer of the same length whose every
  sample is within 0.001 of the input sample: the vintage chain is skipped and the buffer
  returned is the input buffer itself.
\<close>

theorem zero_intensity_near_identity:
  assumes "bit_depth c = 16" and "vintage_intensity c = 0"
    and "\<not> spectral_enhancement c" and "\<not> harmonic_enrichment c"
    and "\<not> noise_reduction c" and "\<not> temporal_smoothing c"
  shows "\<exists>out. enhanced_process c nz audio = Inr out \<and> length out = length audio \<and>
               (\<forall>i<length audio. \<bar>out ! i - audio ! i\<bar> \<le> 1 / 1000) \<and> out = audio"
  using assms by (simp add: enhanced_process_def and_then_def)

theorem zero_intensity_near_identity_witness:
  "bit_depth (default_config\<lparr>bit_depth := 16, vintage_intensity := 0\<rparr>) = 16 \<and>
   vintage_intensity (default_config\<lparr>bit_depth := 16, vintage_intensity := 0\<rparr>) = 0 \<and>
   \<not> spectral_enhancement (default_config\<lparr>bit_depth := 16, vintage_intensity := 0\<rparr>) \<and>
   \<not> harmonic_enrichment (default_config\<lparr>bit_depth := 16, vintage_intensity := 0\<rparr>) \<and>
   \<not> noise_reduction (default_config\<lparr>bit_depth := 16, vintage_intensity := 0\<rparr>) \<and>
   \<not> temporal_smoothing (default_config\<lparr>bit_depth := 16, vintage_intensity := 0\<rparr>) \<and>
   (1::nat) < length [1 / 2, - 1 / 4, 1 :: real] \<and>
   enhanced_process (default_config\<lparr>bit_depth := 16, vintage_intensity := 0\<rparr>) zero_draws
     [1 / 2, - 1 / 4, 1] = Inr [1 / 2, - 1 / 4, 1]"
  using zero_intensity_near_identity
    [of "default_config\<lparr>bit_depth := 16, vintage_intensity := 0\<rparr>" zero_draws
      "[1 / 2, - 1 / 4, 1]"]
  by (simp add: default_config_def)

section \<open>Properties of the synthesizer\<close>

subsection \<open>Lengths of the arrays\<close>

lemma length_linspace: "length (linspace a b n) = n"
  by (simp add: linspace_def)

lemma length_linspace_open: "length (linspace_open a b n) = n"
  by (simp add: linspace_open_def)

lemma length_vmul: "length (vmul xs ys) = min (length xs) (length ys)"
  by (simp add: vmul_def)

lemma length_cumsum_from: "length (cumsum_from acc xs) = length xs"
  by (induction xs arbitrary: acc) simp_all

lemma length_generate_pulse_train:
  "t \<noteq> [] \<Longrightarrow> length f0 = length t \<Longrightarrow> length voicing = length t \<Longrightarrow>
   length (generate_pulse_train sr t f0 voicing) = length t"
  by (cases t) (simp_all add: generate_pulse_train_def Let_def length_vmul length_cumsum_from)

lemma length_apply_highpass_filter: "length (apply_highpass_filter sr xs c) = length xs"
  by (cases xs) (simp_all add: apply_highpass_filter_def length_highpass_loop Let_def)

lemma length_apply_burst_shaping: "length (apply_burst_shaping xs) = length xs"
  by (simp add: apply_burst_shaping_def Let_def length_vmul length_linspace)

lemma length_generate_noise: "length (generate_noise sr nd t sp ep) = length t"
  by (simp add: generate_noise_def Let_def length_apply_highpass_filter length_apply_burst_shaping)

lemma length_generate_amplitude_envelope: "length (generate_amplitude_envelope n) = n"
  by (simp add: generate_amplitude_envelope_def Let_def length_linspace)

lemma length_formant_synthesis:
  "length (formant_synthesis sr nd t sf ef sp ep) = length t"
  by (simp add: formant_synthesis_def Let_def length_vmul length_generate_amplitude_envelope)

lemma length_synthesize_diphone:
  "length (synthesize_diphone sr nd d) =
     nat (py_int (get_diphone_duration (diphone_start d) (diphone_end d) * real sr))"
  by (simp add: synthesize_diphone_def Let_def length_formant_synthesis length_linspace_open)

lemma length_synthesize_unit:
  "length (synthesize_unit sr nd u) =
     (if is_pause u then nat (py_int (get_pause_duration u * real sr))
      else nat (py_int (get_diphone_duration (diphone_start u) (diphone_end u) * real sr)))"
  by (simp add: synthesize_unit_def Let_def length_synthesize_diphone)

lemma length_convolve_full: "length (convolve_full a v) = length a + length v - 1"
  by (simp add: convolve_full_def)

lemma length_convolve_same:
  "a \<noteq> [] \<Longrightarrow> v \<noteq> [] \<Longrightarrow> length (convolve_same a v) = max (length a) (length v)"
  by (cases a; cases v) (auto simp add: convolve_same_def Let_def length_convolve_full)

lemma length_apply_vintage_processing:
  "length (apply_vintage_processing audio) = (if length audio = 2 then 3 else length audio)"
proof -
  consider "length audio = 0" | "length audio = 1" | "length audio = 2" | "length audio > 2"
    by linarith
  then show ?thesis
  proof cases
    case 1
    then show ?thesis by (simp add: apply_vintage_processing_def)
  next
    case 2
    then show ?thesis by (simp add: apply_vintage_processing_def)
  next
    case 3
    then have "audio \<noteq> []" by auto
    then show ?thesis using 3
      by (simp add: apply_vintage_processing_def Let_def length_convolve_same)
  next
    case 4
    then have "audio \<noteq> []" by auto
    then show ?thesis using 4
      by (simp add: apply_vintage_processing_def Let_def length_convolve_same)
  qed
qed

lemma get_pause_duration_pos: "0.2 \<le> get_pause_duration u"
  by (simp add: get_pause_duration_def)

lemma phoneme_durations_lower:
  "map_of phoneme_durations s = Some d \<Longrightarrow> s \<noteq> ''SIL'' \<Longrightarrow> 0.04 \<le> d"
  by (auto simp add: phoneme_durations_def split: if_splits)

lemma get_diphone_duration_lower: "0.04 \<le> get_diphone_duration s e"
  by (auto simp add: get_diphone_duration_def base_duration_def
      dest: phoneme_durations_lower split: option.splits)

lemma length_synthesize_unit_samples:
  "length (synthesize_unit sr nd u) = unit_samples sr u"
  by (simp add: length_synthesize_unit unit_samples_def)

lemma unit_samples_floor:
  "unit_samples sr u =
     (if is_pause u then nat \<lfloor>get_pause_duration u * real sr\<rfloor>
      else nat \<lfloor>get_diphone_duration (diphone_start u) (diphone_end u) * real sr\<rfloor>)"
proof -
  have "0 \<le> get_pause_duration u * real sr"
    using get_pause_duration_pos [of u] by simp
  moreover have "0 \<le> get_diphone_duration (diphone_start u) (diphone_end u) * real sr"
    using get_diphone_duration_lower [of "diphone_start u" "diphone_end u"] by simp
  ultimately show ?thesis
    by (simp add: unit_samples_def py_int_def)
qed

lemma length_synthesize:
  "length (synthesize sr nz ps) =
     (let total = sum_list (map (unit_samples sr) (phonemes_to_diphones ps))
      in if total = 2 then 3 else total)"
proof (cases "ps = []")
  case True
  then show ?thesis
    by (simp add: synthesize_def phonemes_to_diphones_def leading_silence_def
        adjacent_units_def trailing_silence_def)
next
  case False
  have "map (\<lambda>k. length (synthesize_unit sr (nz k) (phonemes_to_diphones ps ! k)))
          [0..<length (phonemes_to_diphones ps)] =
        map (unit_samples sr) (phonemes_to_diphones ps)"
    by (rule nth_equalityI) (simp_all add: length_synthesize_unit_samples)
  then show ?thesis using False
    by (simp add: synthesize_def Let_def length_apply_vintage_processing length_concat comp_def)
qed

lemma unit_samples_lower: "8000 \<le> sr \<Longrightarrow> 320 \<le> unit_samples sr u"
proof -
  assume sr: "8000 \<le> sr"
  have a: "320 \<le> d * real sr" if "0.04 \<le> d" for d :: real
  proof -
    have "0.04 * 8000 \<le> d * real sr"
      using that sr by (intro mult_mono) simp_all
    then show ?thesis by simp
  qed
  have "320 \<le> get_pause_duration u * real sr"
    using a [of "get_pause_duration u"] get_pause_duration_pos [of u] by simp
  moreover have "320 \<le> get_diphone_duration (diphone_start u) (diphone_end u) * real sr"
    using a get_diphone_duration_lower by simp
  ultimately show ?thesis
    by (simp add: unit_samples_floor le_nat_iff le_floor_iff)
qed

lemma sum_list_units_not_two:
  "8000 \<le> sr \<Longrightarrow> sum_list (map (unit_samples sr) us) \<noteq> 2"
proof (cases us)
  case Nil
  then show ?thesis by simp
next
  case (Cons u rest)
  assume "8000 \<le> sr"
  then have "320 \<le> unit_samples sr u" by (rule unit_samples_lower)
  then show ?thesis using Cons by simp
qed


lemma length_synthesize_units:
  assumes "8000 \<le> sr"
  shows "length (synthesize sr nz ps) =
           (\<Sum>u\<leftarrow>phonemes_to_diphones ps.
              if is_pause u then nat \<lfloor>get_pause_duration u * real sr\<rfloor>
              else nat \<lfloor>get_diphone_duration (diphone_start u) (diphone_end u) * real sr\<rfloor>)"
proof -
  have "sum_list (map (unit_samples sr) (phonemes_to_diphones ps)) \<noteq> 2"
    using assms by (rule sum_list_units_not_two)
  then have "length (synthesize sr nz ps) =
      sum_list (map (unit_samples sr) (phonemes_to_diphones ps))"
    by (simp add: length_synthesize Let_def)
  moreover have "unit_samples sr =
      (\<lambda>u. if is_pause u then nat \<lfloor>get_pause_duration u * real sr\<rfloor>
           else nat \<lfloor>get_diphone_duration (diphone_start u) (diphone_end u) * real sr\<rfloor>)"
    by (rule ext) (rule unit_samples_floor)
  ultimately show ?thesis
    by simp
qed

lemma p2d_b_ae: "phonemes_to_diphones [''B'', ''AE''] = [''SIL-B'', ''B-AE'', ''AE-SIL'']"
  by (simp add: phonemes_to_diphones_def leading_silence_def adjacent_units_def
      trailing_silence_def pair_unit_def is_pause_def startswith_def upt_rec)

lemma units_b_ae:
  "unit_samples 8010 ''SIL-B'' = 320" "unit_samples 8010 ''B-AE'' = 480"
  "unit_samples 8010 ''AE-SIL'' = 320"
  by (simp_all add: unit_samples_floor is_pause_def startswith_def diphone_start_def
      diphone_end_def get_diphone_duration_def base_duration_def phoneme_durations_def)

subsection \<open>Length of the synthesized buffer\<close>

text \<open>
  C4 (as the code has it). At a sample rate of at least 8000 Hz the synthesized buffer is as
  long as its segments together: each diphone unit gives \<open>floor(duration * sampleRate)\<close>
  samples and each pause unit \<open>floor(pauseDuration * sampleRate)\<close> samples, the products
  being truncated and not rounded. The post-processing keeps that length.
\<close>

theorem synthesize_length:
  assumes "8000 \<le> sr"
  shows "length (synthesize sr nz ps) =
           (\<Sum>u\<leftarrow>phonemes_to_diphones ps.
              if is_pause u then nat \<lfloor>get_pause_duration u * real sr\<rfloor>
              else nat \<lfloor>get_diphone_duration (diphone_start u) (diphone_end u) * real sr\<rfloor>)"
proof -
  have "sum_list (map (unit_samples sr) (phonemes_to_diphones ps)) \<noteq> 2"
    using assms by (rule sum_list_units_not_two)
  then have "length (synthesize sr nz ps) =
      sum_list (map (unit_samples sr) (phonemes_to_diphones ps))"
    by (simp add: length_synthesize Let_def)
  moreover have "unit_samples sr =
      (\<lambda>u. if is_pause u then nat \<lfloor>get_pause_duration u * real sr\<rfloor>
           else nat \<lfloor>get_diphone_duration (diphone_start u) (diphone_end u) * real sr\<rfloor>)"
    by (rule ext) (rule unit_samples_floor)
  ultimately show ?thesis
    by simp
qed

theorem synthesize_length_witness:
  "(8000::nat) \<le> 22050 \<and>
   phonemes_to_diphones [''B'', ''AE''] = [''SIL-B'', ''B-AE'', ''AE-SIL''] \<and>
   length (synthesize 22050 (\<lambda>_ _. 0) [''B'', ''AE'']) = 882 + 1323 + 882"
  using synthesize_length [of 22050 "\<lambda>_ _. 0" "[''B'', ''AE'']"]
  by (simp add: p2d_b_ae is_pause_def startswith_def diphone_start_def diphone_end_def
      get_diphone_duration_def base_duration_def phoneme_durations_def)

text \<open>
  C4 (as the claim states it) fails at 8010 Hz on the phonemes B, AE. The units SIL-B, B-AE
  and AE-SIL last 0.04 s, 0.06 s and 0.04 s, that is 320.4, 480.6 and 320.4 sample periods;
  the buffer has 320 + 480 + 320 = 1120 samples, while rounding each segment gives 1121.
\<close>

theorem synthesize_length_rounding_counterexample:
  "length (synthesize 8010 (\<lambda>_ _. 0) [''B'', ''AE'']) = 1120 \<and>
   np_round (get_diphone_duration ''SIL'' ''B'' * 8010)
   + np_round (get_diphone_duration ''B'' ''AE'' * 8010)
   + np_round (get_diphone_duration ''AE'' ''SIL'' * 8010) = 1121"
  by (simp add: length_synthesize p2d_b_ae units_b_ae np_round_def
      get_diphone_duration_def base_duration_def phoneme_durations_def)

subsection \<open>Empty input, one phoneme, trailing pause\<close>

text \<open>
  C9. The sequencer maps the empty phoneme sequence to the empty unit sequence, synthesis of
  the empty sequence returns the empty buffer, and a single phoneme \<open>p\<close> that is not a
  pause marker gives exactly the two diphones \<open>SIL-p\<close> and \<open>p-SIL\<close>.
\<close>

theorem empty_and_single_phoneme:
  "phonemes_to_diphones [] = [] \<and> synthesize sr nz [] = [] \<and>
   (\<not> is_pause p \<longrightarrow> phonemes_to_diphones [p] = [''SIL-'' @ p, p @ ''-SIL''])"
  by (simp add: phonemes_to_diphones_def leading_silence_def adjacent_units_def
      trailing_silence_def synthesize_def)

theorem empty_and_single_phoneme_witness:
  "\<not> is_pause ''AE'' \<and> phonemes_to_diphones [''AE''] = [''SIL-AE'', ''AE-SIL''] \<and>
   synthesize 22050 (\<lambda>_ _. 0) [] = []"
  using empty_and_single_phoneme [of 22050 "\<lambda>_ _. 0" "''AE''"]
  by (simp add: is_pause_def startswith_def)

lemma adjacent_units_snoc:
  assumes "qs \<noteq> []"
  shows "adjacent_units (qs @ [m]) = adjacent_units qs @ [pair_unit (last qs) m]"
proof (rule nth_equalityI)
  show "length (adjacent_units (qs @ [m])) = length (adjacent_units qs @ [pair_unit (last qs) m])"
    using assms by (cases qs) (simp_all add: length_adjacent_units)
next
  fix i
  assume "i < length (adjacent_units (qs @ [m]))"
  then have i: "i < length qs"
    by (simp add: length_adjacent_units)
  have left: "adjacent_units (qs @ [m]) ! i = pair_unit ((qs @ [m]) ! i) ((qs @ [m]) ! (i + 1))"
    using i nth_adjacent_units [of i "qs @ [m]"] by simp
  show "adjacent_units (qs @ [m]) ! i = (adjacent_units qs @ [pair_unit (last qs) m]) ! i"
  proof (cases "i + 1 < length qs")
    case True
    then have "(adjacent_units qs @ [pair_unit (last qs) m]) ! i = pair_unit (qs ! i) (qs ! (i + 1))"
      using nth_adjacent_units [of i qs] by (simp add: nth_append length_adjacent_units less_diff_conv)
    then show ?thesis
      using True left by (simp add: nth_append)
  next
    case False
    with i have eq: "i = length qs - 1" by simp
    have "(qs @ [m]) ! i = last qs"
      using assms i eq by (simp add: nth_append last_conv_nth)
    moreover have "(qs @ [m]) ! (i + 1) = m"
      using assms eq by (simp add: nth_append)
    moreover have "(adjacent_units qs @ [pair_unit (last qs) m]) ! i = pair_unit (last qs) m"
      using eq by (simp add: nth_append length_adjacent_units)
    ultimately show ?thesis
      using left by simp
  qed
qed

lemma not_pause_dash:
  assumes "\<not> is_pause a"
  shows "\<not> is_pause (a @ ''-'' @ b)"
proof (cases "length a \<ge> 6")
  case True
  then show ?thesis using assms by (simp add: is_pause_def startswith_def)
next
  case False
  then obtain k where k: "length ''<PAUSE'' - length a = Suc k"
    by (cases "length ''<PAUSE'' - length a") simp_all
  have eq: "take (length ''<PAUSE'') (a @ ''-'' @ b) = a @ CHR ''-'' # take k b"
    using False k by simp
  show ?thesis
  proof
    assume "is_pause (a @ ''-'' @ b)"
    then have "''<PAUSE'' = a @ CHR ''-'' # take k b"
      using eq by (simp only: is_pause_def startswith_def)
    then have "CHR ''-'' \<in> set ''<PAUSE''"
      by (metis in_set_conv_decomp)
    then show False
      by simp
  qed
qed

lemma is_pause_pair_unit: "is_pause (pair_unit a b) = is_pause a"
  using not_pause_dash [of a b] by (auto simp add: pair_unit_def)

lemma count_pause_snoc:
  "length (filter is_pause (qs @ [q])) = length (filter is_pause qs) + (if is_pause q then 1 else 0)"
  by simp

lemma count_pause_adjacent_units:
  "length (filter is_pause (adjacent_units ps)) = length (filter is_pause (butlast ps))"
proof (induction ps rule: rev_induct)
  case Nil
  then show ?case by (simp add: adjacent_units_def)
next
  case (snoc m qs)
  show ?case
  proof (cases "qs = []")
    case True
    then show ?thesis by (simp add: adjacent_units_def)
  next
    case False
    then have "length (filter is_pause qs) =
        length (filter is_pause (butlast qs)) + (if is_pause (last qs) then 1 else 0)"
      using count_pause_snoc [of "butlast qs" "last qs"] by simp
    then show ?thesis
      using False snoc.IH by (simp add: adjacent_units_snoc is_pause_pair_unit)
  qed
qed

lemma not_pause_SIL: "\<not> is_pause (''SIL-'' @ p)"
  by (simp add: is_pause_def startswith_def)

lemma p2d_trailing_pause:
  assumes "is_pause m"
  shows "phonemes_to_diphones (qs @ [m]) =
           leading_silence qs @ adjacent_units qs @ (if qs = [] then [] else [last qs])"
proof (cases "qs = []")
  case True
  then show ?thesis using assms
    by (simp add: phonemes_to_diphones_def leading_silence_def adjacent_units_def
        trailing_silence_def)
next
  case False
  have lead: "leading_silence (qs @ [m]) = leading_silence qs"
    using False by (simp add: leading_silence_def)
  have trail: "trailing_silence (qs @ [m]) = []"
    using assms by (simp add: trailing_silence_def)
  have "pair_unit (last qs) m = last qs"
    using assms by (simp add: pair_unit_def)
  then have "adjacent_units (qs @ [m]) = adjacent_units qs @ [last qs]"
    using False by (simp add: adjacent_units_snoc)
  then show ?thesis
    using False lead trail by (simp add: phonemes_to_diphones_def)
qed

text \<open>
  C10. When the last element of the input is a pause marker \<open>m\<close>, the units are the leading
  transition and the pair units of the elements before \<open>m\<close>, then the element in front of
  \<open>m\<close>: no unit is made for \<open>m\<close> itself, and the pause units number as many as the pause
  markers in front of \<open>m\<close>. So \<open>m\<close> contributes no audio samples: at a valid sample rate
  the synthesized buffer has exactly the samples of those units and none for \<open>m\<close>, the audio
  is the same whichever pause marker \<open>m\<close> is, and a sequence holding only \<open>m\<close> synthesizes
  to the empty buffer, not to silence of the pause's duration.
\<close>

theorem trailing_pause_dropped:
  assumes "is_pause m"
  shows "phonemes_to_diphones (qs @ [m]) =
           leading_silence qs @ adjacent_units qs @ (if qs = [] then [] else [last qs]) \<and>
         length (filter is_pause (phonemes_to_diphones (qs @ [m]))) = length (filter is_pause qs) \<and>
         (8000 \<le> sr \<longrightarrow>
          length (synthesize sr nz (qs @ [m])) =
            (\<Sum>u\<leftarrow>leading_silence qs @ adjacent_units qs @ (if qs = [] then [] else [last qs]).
               if is_pause u then nat \<lfloor>get_pause_duration u * real sr\<rfloor>
               else nat \<lfloor>get_diphone_duration (diphone_start u) (diphone_end u) * real sr\<rfloor>)) \<and>
         (is_pause m' \<longrightarrow> synthesize sr nz (qs @ [m]) = synthesize sr nz (qs @ [m'])) \<and>
         synthesize sr nz [m] = [] \<and> length (synthesize sr nz [m]) = 0"
proof -
  have units: "phonemes_to_diphones (qs @ [m]) =
           leading_silence qs @ adjacent_units qs @ (if qs = [] then [] else [last qs])"
    using assms by (rule p2d_trailing_pause)
  have lead: "filter is_pause (leading_silence qs) = []"
    using not_pause_SIL [of "hd qs"] by (simp add: leading_silence_def)
  have split: "length (filter is_pause qs) =
        length (filter is_pause (butlast qs)) + (if qs \<noteq> [] \<and> is_pause (last qs) then 1 else 0)"
  proof (cases "qs = []")
    case True
    then show ?thesis by simp
  next
    case False
    then show ?thesis
      using count_pause_snoc [of "butlast qs" "last qs"] by simp
  qed
  have count: "length (filter is_pause (phonemes_to_diphones (qs @ [m]))) = length (filter is_pause qs)"
    by (simp add: units lead count_pause_adjacent_units split)
  have samples: "length (synthesize sr nz (qs @ [m])) =
      (\<Sum>u\<leftarrow>leading_silence qs @ adjacent_units qs @ (if qs = [] then [] else [last qs]).
         if is_pause u then nat \<lfloor>get_pause_duration u * real sr\<rfloor>
         else nat \<lfloor>get_diphone_duration (diphone_start u) (diphone_end u) * real sr\<rfloor>)"
    if "8000 \<le> sr"
    using length_synthesize_units [OF that, of nz "qs @ [m]"] by (simp only: units)
  have indep: "synthesize sr nz (qs @ [m]) = synthesize sr nz (qs @ [m'])" if "is_pause m'"
    using p2d_trailing_pause [OF assms, of qs] p2d_trailing_pause [OF that, of qs]
    by (simp add: synthesize_def)
  have single: "synthesize sr nz [m] = []"
    using p2d_trailing_pause [OF assms, of "[]"]
    by (simp add: synthesize_def leading_silence_def adjacent_units_def apply_vintage_processing_def)
  show ?thesis
    using units count samples indep single by simp
qed

theorem trailing_pause_dropped_witness:
  "is_pause ''<PAUSE_LONG>'' \<and> is_pause ''<PAUSE_SHORT>'' \<and> (8000::nat) \<le> 22050 \<and>
   phonemes_to_diphones [''AE'', ''<PAUSE_LONG>''] = [''SIL-AE'', ''AE''] \<and>
   length (filter is_pause (phonemes_to_diphones [''AE'', ''<PAUSE_LONG>''])) = 0 \<and>
   length (synthesize 22050 (\<lambda>_ _. 0) [''AE'', ''<PAUSE_LONG>'']) = 882 + 2205 \<and>
   synthesize 22050 (\<lambda>_ _. 0) [''AE'', ''<PAUSE_LONG>''] =
     synthesize 22050 (\<lambda>_ _. 0) [''AE'', ''<PAUSE_SHORT>''] \<and>
   synthesize 22050 (\<lambda>_ _. 0) [''<PAUSE_LONG>''] = []"
proof -
  have long: "is_pause ''<PAUSE_LONG>''" and short: "is_pause ''<PAUSE_SHORT>''"
    by (simp_all add: is_pause_def startswith_def)
  note ae = trailing_pause_dropped [OF long, of "[''AE'']" 22050 "\<lambda>_ _. 0" "''<PAUSE_SHORT>''"]
  note lone = trailing_pause_dropped [OF long, of "[]" 22050 "\<lambda>_ _. 0" "''<PAUSE_LONG>''"]
  have units: "phonemes_to_diphones [''AE'', ''<PAUSE_LONG>''] = [''SIL-AE'', ''AE'']"
    using ae [THEN conjunct1]
    by (simp add: is_pause_def startswith_def leading_silence_def adjacent_units_def)
  have count: "length (filter is_pause (phonemes_to_diphones [''AE'', ''<PAUSE_LONG>''])) = 0"
    using ae [THEN conjunct2, THEN conjunct1]
    by (simp add: is_pause_def startswith_def)
  have samples: "length (synthesize 22050 (\<lambda>_ _. 0) [''AE'', ''<PAUSE_LONG>'']) = 882 + 2205"
    using ae [THEN conjunct2, THEN conjunct2, THEN conjunct1]
    by (simp add: is_pause_def startswith_def leading_silence_def adjacent_units_def
        diphone_start_def diphone_end_def get_diphone_duration_def base_duration_def
        phoneme_durations_def)
  have same: "synthesize 22050 (\<lambda>_ _. 0) [''AE'', ''<PAUSE_LONG>''] =
      synthesize 22050 (\<lambda>_ _. 0) [''AE'', ''<PAUSE_SHORT>'']"
    using ae [THEN conjunct2, THEN conjunct2, THEN conjunct2, THEN conjunct1] short
    by simp
  have empty: "synthesize 22050 (\<lambda>_ _. 0) [''<PAUSE_LONG>''] = []"
    using lone [THEN conjunct2, THEN conjunct2, THEN conjunct2, THEN conjunct2, THEN conjunct1]
    by simp
  show ?thesis
    by (intro conjI long short units count samples same empty) simp
qed

end
